theory Spec2Isabelle
  imports Main "HOL-Library.Sublist" "HOL-Library.AList"
begin

section \<open>Python values, exceptions and the world outside the process\<close>

text \<open>
  The module \<^verbatim>\<open>torbrowser_launcher/common.py\<close> defines one class, \<^verbatim>\<open>Common\<close>. Its methods
  read and write a handful of files, talk to the GnuPG engine and to one HTTP endpoint, and
  keep their results in attributes of \<^verbatim>\<open>self\<close>. The embedding passes the object and the
  part of the world it touches as one record, and returns an exception as \<open>Inl\<close>.
\<close>

datatype exn =
    FileNotFoundError
  | IsADirectoryError
  | JSONDecodeError
  | UnpicklingError
  | EOFError
  | UnicodeDecodeError
  | TypeError
  | AttributeError
  | KeyError
  | IndexError
  | RequestException

text \<open>
  The values \<^verbatim>\<open>json.load\<close> produces. A dictionary is an association list in insertion
  order; \<open>map_of\<close> reads it and \<open>AList.update\<close> writes it (in place for a key that is
  present, at the end for a new one, as a Python dictionary does). Two dictionaries are equal
  in Python when \<open>map_of\<close> agrees on them, whatever the order of their items. JSON numbers
  are kept as integers only: no operation below tells one kind of number from another.
\<close>

datatype pyval =
    PNone
  | PBool bool
  | PInt int
  | PStr string
  | PList "pyval list"
  | PDict "(string \<times> pyval) list"

text \<open>
  What a path names: nothing, a directory, or a regular file with its content. Opening for
  reading raises \<^verbatim>\<open>FileNotFoundError\<close> on the first and \<^verbatim>\<open>IsADirectoryError\<close> on the second.
  Permissions are not modelled: every regular file can be read, overwritten and unlinked,
  and the parent directory of every path exists.
\<close>

datatype 'a entry = Absent | Dir | File 'a

text \<open>
  The content of a file that a decoder of the standard library reads (\<^verbatim>\<open>json.load\<close>,
  \<^verbatim>\<open>pickle.load\<close>, the UTF-8 text layer) is kept as what that decoder makes of it: the
  decoded value, or the exception the decoder raises on it (\<^verbatim>\<open>JSONDecodeError\<close> for text
  that is not JSON, \<^verbatim>\<open>UnicodeDecodeError\<close> for bytes that are not UTF-8,
  \<^verbatim>\<open>UnpicklingError\<close> or \<^verbatim>\<open>EOFError\<close> for a damaged or empty pickle).
\<close>

datatype 'a decoded = Undecodable exn | Decodes 'a

definition open_read :: "'a entry \<Rightarrow> exn + 'a" where
  "open_read e = (case e of Absent \<Rightarrow> Inl FileNotFoundError | Dir \<Rightarrow> Inl IsADirectoryError | File c \<Rightarrow> Inr c)"

text \<open>Opening a file and running its decoder, as the body of a \<^verbatim>\<open>with open(...)\<close> does.\<close>

definition read_decoded :: "'a decoded entry \<Rightarrow> exn + 'a" where
  "read_decoded e =
     (case open_read e of
        Inl x \<Rightarrow> Inl x
      | Inr (Undecodable x) \<Rightarrow> Inl x
      | Inr (Decodes v) \<Rightarrow> Inr v)"

definition is_file :: "'a entry \<Rightarrow> bool" where
  "is_file e = (case e of File _ \<Rightarrow> True | _ \<Rightarrow> False)"

subsection \<open>The GnuPG engine\<close>

text \<open>
  \<^verbatim>\<open>c.op_import\<close> either raises or completes; \<^verbatim>\<open>c.op_import_result()\<close> then gives a result
  object or \<^verbatim>\<open>None\<close>. A result object lists the keys the engine looked at, each with the
  fingerprint it reports. What the engine does with key material, and what it does to the
  keyring, is not code of this repository: it is a parameter, a function from the material
  and the keyring before to the keyring after and the reply.
\<close>

record import_status =
  fpr :: string

record import_result =
  result_imports :: "import_status list"

datatype engine_reply = EngineError | EngineResult "import_result option"

type_synonym 'k engine = "string \<Rightarrow> 'k \<Rightarrow> 'k \<times> engine_reply"

subsection \<open>The object and its files\<close>

record 'k common =
  tbl_version :: string
  mirrors :: "string list"
  settings :: "pyval option"
  settings_file :: "pyval decoded entry"
  settings_file_pickle :: "pyval decoded entry"
  tbb_start :: "string entry"
  mirrors_txt :: "string decoded entry list"
  tor_browser_developers_asc :: "string entry"
  wkd_tmp :: "string entry"
  gnupg_homedir :: 'k
  stdout :: "string list"

text \<open>
  \<open>settings = None\<close> is the attribute \<^verbatim>\<open>self.settings\<close> before its first assignment.
  \<open>gnupg_homedir\<close> is the keyring the engine keeps there, \<open>stdout\<close> the lines printed so far.
\<close>

definition default_mirror :: string where
  "default_mirror = ''https://dist.torproject.org/''"

section \<open>Key import and fingerprint pinning\<close>

definition tor_browser_developers_fingerprint :: string where
  "tor_browser_developers_fingerprint = ''EF6E286DDA85EA2A4BA7DE684E2C6E8793298290''"

definition fingerprints :: "string \<rightharpoonup> string" where
  "fingerprints =
     [''tor_browser_developers'' \<mapsto> tor_browser_developers_fingerprint,
      ''wkd_tmp'' \<mapsto> tor_browser_developers_fingerprint]"

definition signing_keys :: "'k common \<Rightarrow> string \<rightharpoonup> string entry" where
  "signing_keys s =
     [''tor_browser_developers'' \<mapsto> tor_browser_developers_asc s,
      ''wkd_tmp'' \<mapsto> wkd_tmp s]"

text \<open>Python's \<^verbatim>\<open>a in b\<close> on strings: \<open>a\<close> occurs in \<open>b\<close> as a contiguous run.\<close>

fun str_in :: "string \<Rightarrow> string \<Rightarrow> bool" where
  "str_in sub [] = (sub = [])"
| "str_in sub (c # cs) = (prefix sub (c # cs) \<or> str_in sub cs)"

text \<open>
  \<^verbatim>\<open>import_key_and_check_status\<close>. The lookup of the key's path is outside the \<^verbatim>\<open>try\<close>;
  \<^verbatim>\<open>gpg.Data(file=...)\<close> and \<^verbatim>\<open>op_import\<close> are inside it, under a bare \<^verbatim>\<open>except\<close> that
  returns \<^verbatim>\<open>False\<close> (a path that is no regular file makes \<^verbatim>\<open>gpg.Data\<close> raise). In the
  condition, \<^verbatim>\<open>self.fingerprints[key]\<close> is evaluated before \<^verbatim>\<open>result.imports[0]\<close>.
\<close>

definition import_key_and_check_status ::
    "'k engine \<Rightarrow> string \<Rightarrow> 'k common \<Rightarrow> exn + ('k common \<times> bool)" where
  "import_key_and_check_status engine key s =
     (case signing_keys s key of
        None \<Rightarrow> Inl KeyError
      | Some impkey \<Rightarrow>
          (case impkey of
             File material \<Rightarrow>
               (case engine material (gnupg_homedir s) of
                  (homedir, EngineError) \<Rightarrow> Inr (s\<lparr>gnupg_homedir := homedir\<rparr>, False)
                | (homedir, EngineResult None) \<Rightarrow> Inr (s\<lparr>gnupg_homedir := homedir\<rparr>, False)
                | (homedir, EngineResult (Some result)) \<Rightarrow>
                    (case fingerprints key of
                       None \<Rightarrow> Inl KeyError
                     | Some expected \<Rightarrow>
                         (case result_imports result of
                            [] \<Rightarrow> Inl IndexError
                          | i # _ \<Rightarrow>
                              Inr (s\<lparr>gnupg_homedir := homedir\<rparr>, str_in expected (fpr i)))))
           | _ \<Rightarrow> Inr (s, False)))"

section \<open>The mirror list\<close>

text \<open>
  A text file is read with universal newlines: \<^verbatim>\<open>\r\n\<close> and a lone \<^verbatim>\<open>\r\<close> arrive as
  \<^verbatim>\<open>\n\<close>. Iterating the file yields the lines with their terminator; a last line without
  one is yielded as it is, and nothing follows a final terminator.
\<close>

fun universal_newlines :: "string \<Rightarrow> string" where
  "universal_newlines [] = []"
| "universal_newlines [c] = (if c = CHR 0x0D then [CHR 0x0A] else [c])"
| "universal_newlines (c # d # cs) =
     (if c = CHR 0x0D then
        (if d = CHR 0x0A then CHR 0x0A # universal_newlines cs
         else CHR 0x0A # universal_newlines (d # cs))
      else c # universal_newlines (d # cs))"

fun split_lines :: "string \<Rightarrow> string \<Rightarrow> string list" where
  "split_lines cur [] = (if cur = [] then [] else [cur])"
| "split_lines cur (c # cs) =
     (if c = CHR 0x0A then (cur @ [c]) # split_lines [] cs else split_lines (cur @ [c]) cs)"

definition file_lines :: "string \<Rightarrow> string list" where
  "file_lines text = split_lines [] (universal_newlines text)"

text \<open>
  \<^verbatim>\<open>str.strip()\<close> removes the characters for which \<^verbatim>\<open>str.isspace\<close> holds from both ends;
  below code point 256 these are the twelve listed.
\<close>

definition isspace :: "char \<Rightarrow> bool" where
  "isspace c = (c \<in> set [CHR 0x09, CHR 0x0A, CHR 0x0B, CHR 0x0C, CHR 0x0D, CHR 0x1C, CHR 0x1D,
                           CHR 0x1E, CHR 0x1F, CHR 0x20, CHR 0x85, CHR 0xA0])"

definition strip :: "string \<Rightarrow> string" where
  "strip s = rev (dropWhile isspace (rev (dropWhile isspace s)))"

text \<open>The inner loop of \<^verbatim>\<open>load_mirrors\<close>, over the lines of one file.\<close>

fun add_mirrors :: "string list \<Rightarrow> string list \<Rightarrow> string list" where
  "add_mirrors ms [] = ms"
| "add_mirrors ms (line # rest) =
     (let mirror = strip line
      in add_mirrors (if mirror \<notin> set ms then ms @ [mirror] else ms) rest)"

text \<open>
  The outer loop, over the source files in the order of \<^verbatim>\<open>self.paths["mirrors_txt"]\<close>. Only
  \<^verbatim>\<open>FileNotFoundError\<close> is caught; any other exception of \<^verbatim>\<open>open\<close> or of the text decoder
  ends the method.
\<close>

fun load_mirrors_from :: "string list \<Rightarrow> string decoded entry list \<Rightarrow> exn + string list" where
  "load_mirrors_from ms [] = Inr ms"
| "load_mirrors_from ms (srcfile # rest) =
     (case read_decoded srcfile of
        Inl e \<Rightarrow> (if e = FileNotFoundError then load_mirrors_from ms rest else Inl e)
      | Inr text \<Rightarrow> load_mirrors_from (add_mirrors ms (file_lines text)) rest)"

definition load_mirrors :: "'k common \<Rightarrow> exn + 'k common" where
  "load_mirrors s =
     (case load_mirrors_from [] (mirrors_txt s) of
        Inl e \<Rightarrow> Inl e
      | Inr ms \<Rightarrow> Inr (s\<lparr>mirrors := ms\<rparr>))"

text \<open>
  The specification's reading of the result: every distinct entry once, in the order of
  first occurrence.
\<close>

fun first_occurrences :: "'a list \<Rightarrow> 'a list" where
  "first_occurrences [] = []"
| "first_occurrences (x # xs) = x # first_occurrences (filter (\<lambda>y. y \<noteq> x) xs)"

text \<open>The trimmed lines of the source files that exist, in the order they are read.\<close>

fun trimmed_lines :: "string decoded entry list \<Rightarrow> string list" where
  "trimmed_lines [] = []"
| "trimmed_lines (File (Decodes text) # rest) = map strip (file_lines text) @ trimmed_lines rest"
| "trimmed_lines (_ # rest) = trimmed_lines rest"

section \<open>Settings\<close>

definition default_settings :: "'k common \<Rightarrow> (string \<times> pyval) list" where
  "default_settings s =
     [(''tbl_version'', PStr (tbl_version s)),
      (''installed'', PBool False),
      (''download_over_tor'', PBool False),
      (''tor_socks_address'', PStr ''127.0.0.1:9050''),
      (''mirror'', PStr default_mirror)]"

text \<open>
  \<^verbatim>\<open>save_settings\<close> opens the settings file for writing, then dumps \<^verbatim>\<open>self.settings\<close>. Every
  value of \<^typ>\<open>pyval\<close> can be dumped, and read back it is the same value. The method's
  return value is the constant \<^verbatim>\<open>True\<close>, which no caller reads.
\<close>

definition save_settings :: "'k common \<Rightarrow> exn + 'k common" where
  "save_settings s =
     (case settings_file s of
        Dir \<Rightarrow> Inl IsADirectoryError
      | _ \<Rightarrow>
          (case settings s of
             None \<Rightarrow> Inl AttributeError
           | Some v \<Rightarrow> Inr (s\<lparr>settings_file := File (Decodes v)\<rparr>)))"

text \<open>
  The \<^verbatim>\<open>else\<close> branch of the first \<^verbatim>\<open>try\<close>: the settings file was read and decoded.
  Its three commented blocks each work on the dictionary and the flag \<^verbatim>\<open>resave\<close>.

  ``Make sure settings file is up-to-date'': every default whose key the dictionary lacks
  is added. The source iterates over a set difference of keys, whose order Python leaves
  open; the model takes the order of \<^verbatim>\<open>default_settings\<close>. The keys are new, so every order
  gives the same dictionary up to the order of its new items (\<open>backfill_order_irrelevant\<close>
  below).
\<close>

definition missing_settings ::
    "(string \<times> pyval) list \<Rightarrow> (string \<times> pyval) list \<Rightarrow> (string \<times> pyval) list" where
  "missing_settings defaults d = filter (\<lambda>(k, v). map_of d k = None) defaults"

definition make_up_to_date ::
    "(string \<times> pyval) list \<Rightarrow> (string \<times> pyval) list \<Rightarrow> (string \<times> pyval) list \<times> bool" where
  "make_up_to_date defaults d =
     (let missing = missing_settings defaults d
      in (fold (\<lambda>(k, v). AList.update k v) missing d, missing \<noteq> []))"

text \<open>
  ``Make sure tor_socks_address doesn't start with tcp:'': \<^verbatim>\<open>.startswith\<close> on anything
  but a string raises \<^verbatim>\<open>AttributeError\<close>; the slice \<^verbatim>\<open>[4:]\<close> drops four characters.
\<close>

definition strip_tcp ::
    "(string \<times> pyval) list \<times> bool \<Rightarrow> exn + (string \<times> pyval) list \<times> bool" where
  "strip_tcp p =
     (case p of (d, resave) \<Rightarrow>
        (case map_of d ''tor_socks_address'' of
           None \<Rightarrow> Inl KeyError
         | Some (PStr addr) \<Rightarrow>
             (if prefix ''tcp:'' addr
              then Inr (AList.update ''tor_socks_address'' (PStr (drop 4 addr)) d, True)
              else Inr (d, resave))
         | Some _ \<Rightarrow> Inl AttributeError))"

text \<open>``Make sure the version is current''.\<close>

definition make_version_current ::
    "string \<Rightarrow> (string \<times> pyval) list \<times> bool \<Rightarrow> exn + (string \<times> pyval) list \<times> bool" where
  "make_version_current version p =
     (case p of (d, resave) \<Rightarrow>
        (case map_of d ''tbl_version'' of
           None \<Rightarrow> Inl KeyError
         | Some v \<Rightarrow>
             (if v \<noteq> PStr version
              then Inr (AList.update ''tbl_version'' (PStr version) d, True)
              else Inr (d, resave))))"

text \<open>
  The branch as a whole. Item assignment on anything but a dictionary raises
  \<^verbatim>\<open>TypeError\<close>. Setting \<^verbatim>\<open>installed\<close> does not set \<^verbatim>\<open>resave\<close>.
\<close>

definition load_settings_json :: "pyval \<Rightarrow> 'k common \<Rightarrow> exn + 'k common" where
  "load_settings_json loaded s =
     (case loaded of
        PDict d0 \<Rightarrow>
          (let d1 = AList.update ''installed'' (PBool (is_file (tbb_start s))) d0
           in case strip_tcp (make_up_to_date (default_settings s) d1) of
                Inl e \<Rightarrow> Inl e
              | Inr p \<Rightarrow>
                  (case make_version_current (tbl_version s) p of
                     Inl e \<Rightarrow> Inl e
                   | Inr (d, resave) \<Rightarrow>
                       (let s' = s\<lparr>settings := Some (PDict d)\<rparr>
                        in if resave then save_settings s' else Inr s')))
      | _ \<Rightarrow> Inl TypeError)"

text \<open>
  \<^verbatim>\<open>load_settings\<close>. Both \<^verbatim>\<open>try\<close> statements catch \<^verbatim>\<open>FileNotFoundError\<close> and
  \<^verbatim>\<open>IsADirectoryError\<close> and nothing else: an exception of the decoder reaches the caller.
  After the legacy file has been converted it is unlinked and the method calls itself.
\<close>

definition missing_or_directory :: "exn \<Rightarrow> bool" where
  "missing_or_directory e = (e = FileNotFoundError \<or> e = IsADirectoryError)"

function load_settings :: "'k common \<Rightarrow> exn + 'k common" where
  "load_settings s =
     (case read_decoded (settings_file s) of
        Inr loaded \<Rightarrow> load_settings_json loaded s
      | Inl e \<Rightarrow>
          if missing_or_directory e then
            (case read_decoded (settings_file_pickle s) of
               Inr obj \<Rightarrow>
                 (case save_settings (s\<lparr>settings := Some obj\<rparr>) of
                    Inl e \<Rightarrow> Inl e
                  | Inr s1 \<Rightarrow> load_settings (s1\<lparr>settings_file_pickle := Absent\<rparr>))
             | Inl e' \<Rightarrow>
                 if missing_or_directory e'
                 then save_settings (s\<lparr>settings := Some (PDict (default_settings s))\<rparr>)
                 else Inl e')
          else Inl e)"
  by pat_completeness auto

termination
  by (relation "measure (\<lambda>s. if is_file (settings_file_pickle s) then 1 else 0)")
     (auto simp: read_decoded_def open_read_def is_file_def split: entry.splits decoded.splits)

declare load_settings.simps [simp del]

section \<open>Refreshing the signing key\<close>

text \<open>
  \<^verbatim>\<open>proxies\<close> reads two settings. \<open>Socks5h addr\<close> is the dictionary that routes both schemes
  through \<^verbatim>\<open>socks5h://\<close> followed by the formatted address.
\<close>

datatype proxy_config = NoProxy | Socks5h pyval

fun truthy :: "pyval \<Rightarrow> bool" where
  "truthy PNone = False"
| "truthy (PBool b) = b"
| "truthy (PInt i) = (i \<noteq> 0)"
| "truthy (PStr t) = (t \<noteq> [])"
| "truthy (PList xs) = (xs \<noteq> [])"
| "truthy (PDict d) = (d \<noteq> [])"

definition getitem :: "pyval \<Rightarrow> string \<Rightarrow> exn + pyval" where
  "getitem v k =
     (case v of
        PDict d \<Rightarrow> (case map_of d k of None \<Rightarrow> Inl KeyError | Some x \<Rightarrow> Inr x)
      | _ \<Rightarrow> Inl TypeError)"

definition proxies :: "'k common \<Rightarrow> exn + proxy_config" where
  "proxies s =
     (case settings s of
        None \<Rightarrow> Inl AttributeError
      | Some v \<Rightarrow>
          (case getitem v ''download_over_tor'' of
             Inl e \<Rightarrow> Inl e
           | Inr flag \<Rightarrow>
               if truthy flag then
                 (case getitem v ''tor_socks_address'' of
                    Inl e \<Rightarrow> Inl e
                  | Inr addr \<Rightarrow> Inr (Socks5h addr))
               else Inr NoProxy))"

record response =
  status_code :: int
  content :: string

definition print :: "string \<Rightarrow> 'k common \<Rightarrow> 'k common" where
  "print line s = s\<lparr>stdout := stdout s @ [line]\<rparr>"

fun decimal :: "nat \<Rightarrow> string" where
  "decimal n = (if n < 10 then [char_of (48 + n)] else decimal (n div 10) @ [char_of (48 + n mod 10)])"

declare decimal.simps [simp del]

definition str_int :: "int \<Rightarrow> string" where
  "str_int i = (if i < 0 then CHR ''-'' # decimal (nat (- i)) else decimal (nat i))"

text \<open>
  \<^verbatim>\<open>refresh_keyring\<close>. The HTTP client is a parameter: given the proxy configuration it
  raises or answers. Every path of the method ends in a bare \<^verbatim>\<open>return\<close>, so the value
  returned is \<^verbatim>\<open>None\<close>.
\<close>

definition refresh_keyring ::
    "'k engine \<Rightarrow> (proxy_config \<Rightarrow> exn + response) \<Rightarrow> 'k common \<Rightarrow> exn + ('k common \<times> pyval)" where
  "refresh_keyring engine requests_get s =
     (let s1 = print ''Downloading latest Tor Browser signing key...'' s
      in case proxies s1 of
           Inl e \<Rightarrow> Inl e
         | Inr p \<Rightarrow>
             (case requests_get p of
                Inl e \<Rightarrow> Inl e
              | Inr r \<Rightarrow>
                  if status_code r \<noteq> 200 then
                    Inr (print (''Error fetching key, status code = '' @ str_int (status_code r)) s1,
                         PNone)
                  else
                    (case wkd_tmp s1 of
                       Dir \<Rightarrow> Inl IsADirectoryError
                     | _ \<Rightarrow>
                         (case import_key_and_check_status engine ''wkd_tmp''
                                 (s1\<lparr>wkd_tmp := File (content r)\<rparr>) of
                            Inl e \<Rightarrow> Inl e
                          | Inr (s2, ok) \<Rightarrow>
                              Inr (print (if ok then ''Key imported successfully''
                                          else ''Key failed to import'') s2,
                                   PNone)))))"

section \<open>Example inputs\<close>

text \<open>
  A profile before the first start: no settings file of either format, no mirror lists, the
  packaged key in place, an empty keyring (the fingerprints of the keys it holds) and
  nothing printed.
\<close>

definition example_common :: "string list common" where
  "example_common =
     \<lparr>tbl_version = ''1.2.3'', mirrors = [], settings = None, settings_file = Absent,
      settings_file_pickle = Absent, tbb_start = Absent, mirrors_txt = [Absent, Absent],
      tor_browser_developers_asc = File ''packaged key material'', wkd_tmp = Absent,
      gnupg_homedir = [], stdout = []\<rparr>"

text \<open>An engine that imports one key and reports the fingerprint \<open>f\<close> for it.\<close>

definition reporting_engine :: "string \<Rightarrow> string list engine" where
  "reporting_engine f material keyring =
     (keyring @ [f], EngineResult (Some \<lparr>result_imports = [\<lparr>fpr = f\<rparr>]\<rparr>))"

text \<open>An engine that finds no key in the material and completes without an error.\<close>

definition no_keys_engine :: "string list engine" where
  "no_keys_engine material keyring = (keyring, EngineResult (Some \<lparr>result_imports = []\<rparr>))"

text \<open>The record of the legacy settings file in the migration scenario.\<close>

definition legacy_record :: pyval where
  "legacy_record =
     PDict [(''tbl_version'', PStr ''1.0.0''),
            (''installed'', PBool True),
            (''download_over_tor'', PBool True),
            (''tor_socks_address'', PStr ''tcp:10.0.0.1:9050''),
            (''mirror'', PStr ''https://example.org/'')]"

text \<open>The profile after the first start: the default settings are loaded and saved.\<close>

definition loaded_common :: "string list common" where
  "loaded_common =
     example_common
       \<lparr>settings := Some (PDict (default_settings example_common)),
        settings_file := File (Decodes (PDict (default_settings example_common)))\<rparr>"

text \<open>An HTTP client that answers every request with the given status and body.\<close>

definition answering :: "int \<Rightarrow> string \<Rightarrow> proxy_config \<Rightarrow> exn + response" where
  "answering code body p = Inr \<lparr>status_code = code, content = body\<rparr>"

section \<open>Properties of the key import\<close>

text \<open>The membership test on strings is the contiguous-sublist relation of the library.\<close>

lemma str_in_sublist: "str_in a b = sublist a b"
  by (induction b) (auto simp: sublist_Cons_right)

lemma sublist_same_length: "sublist xs ys \<Longrightarrow> length xs = length ys \<Longrightarrow> xs = ys"
  by (auto simp: sublist_def)

lemma fingerprint_length: "fingerprints key = Some expected \<Longrightarrow> length expected = 40"
  by (auto simp: fingerprints_def tor_browser_developers_fingerprint_def split: if_splits)

lemma import_key_first_import:
  assumes "fingerprints key = Some expected"
      and "signing_keys s key = Some (File material)"
      and "engine material (gnupg_homedir s) = (homedir, EngineResult (Some result))"
      and "result_imports result = i # others"
  shows "import_key_and_check_status engine key s
           = Inr (s\<lparr>gnupg_homedir := homedir\<rparr>, sublist expected (fpr i))"
  using assms by (simp add: import_key_and_check_status_def str_in_sublist)

lemma import_key_frame:
  "import_key_and_check_status engine key s = Inr (s2, ok) \<Longrightarrow>
     s2 = s\<lparr>gnupg_homedir := gnupg_homedir s2\<rparr>"
  by (auto simp: import_key_and_check_status_def
        split: option.splits entry.splits prod.splits engine_reply.splits list.splits)

text \<open>
  Claim C1, as the code has it. For every key name of the fingerprint registry and every
  engine result that lists at least one key, \<^verbatim>\<open>import_key_and_check_status\<close> returns
  \<^verbatim>\<open>True\<close> exactly when the expected fingerprint occurs in the fingerprint reported for
  the first key as a contiguous run of characters. For a reported fingerprint of 40
  characters this is equality with the expected fingerprint.
\<close>

theorem import_key_checks_containment:
  assumes "fingerprints key = Some expected"
      and "signing_keys s key = Some (File material)"
      and "engine material (gnupg_homedir s) = (homedir, EngineResult (Some result))"
      and "result_imports result = i # others"
  shows "import_key_and_check_status engine key s
           = Inr (s\<lparr>gnupg_homedir := homedir\<rparr>, sublist expected (fpr i))
       \<and> (length (fpr i) = 40 \<longrightarrow>
            (import_key_and_check_status engine key s = Inr (s\<lparr>gnupg_homedir := homedir\<rparr>, True))
              = (fpr i = expected))"
proof -
  have run: "import_key_and_check_status engine key s
               = Inr (s\<lparr>gnupg_homedir := homedir\<rparr>, sublist expected (fpr i))"
    using assms by (simp add: import_key_and_check_status_def str_in_sublist)
  have "sublist expected (fpr i) = (fpr i = expected)" if "length (fpr i) = 40"
    using that fingerprint_length [OF assms(1)] sublist_same_length [of expected "fpr i"]
    by auto
  with run show ?thesis by simp
qed

theorem import_key_checks_containment_witness:
  "import_key_and_check_status (reporting_engine ''EF6E286DDA85EA2A4BA7DE684E2C6E8793298290'')
       ''tor_browser_developers'' example_common
     = Inr (example_common\<lparr>gnupg_homedir := [''EF6E286DDA85EA2A4BA7DE684E2C6E8793298290'']\<rparr>, True)"
  using import_key_checks_containment
          [of "''tor_browser_developers''" "''EF6E286DDA85EA2A4BA7DE684E2C6E8793298290''"
              example_common "''packaged key material''"
              "reporting_engine ''EF6E286DDA85EA2A4BA7DE684E2C6E8793298290''"
              "[''EF6E286DDA85EA2A4BA7DE684E2C6E8793298290'']"
              "\<lparr>result_imports = [\<lparr>fpr = ''EF6E286DDA85EA2A4BA7DE684E2C6E8793298290''\<rparr>]\<rparr>"
              "\<lparr>fpr = ''EF6E286DDA85EA2A4BA7DE684E2C6E8793298290''\<rparr>" "[]"]
  by (simp add: fingerprints_def tor_browser_developers_fingerprint_def signing_keys_def
        example_common_def reporting_engine_def)

text \<open>
  Claim C1, as stated, asks for failure whenever the reported fingerprint only contains the
  expected one. A reported fingerprint of 64 characters that starts with the expected 40 is
  accepted.
\<close>

theorem import_key_accepts_longer_fingerprint:
  "import_key_and_check_status
       (reporting_engine ''EF6E286DDA85EA2A4BA7DE684E2C6E87932982900123456789ABCDEF01234567'')
       ''tor_browser_developers'' example_common
     = Inr (example_common\<lparr>gnupg_homedir :=
              [''EF6E286DDA85EA2A4BA7DE684E2C6E87932982900123456789ABCDEF01234567'']\<rparr>, True)
   \<and> fingerprints ''tor_browser_developers'' = Some ''EF6E286DDA85EA2A4BA7DE684E2C6E8793298290''
   \<and> ''EF6E286DDA85EA2A4BA7DE684E2C6E87932982900123456789ABCDEF01234567''
       \<noteq> ''EF6E286DDA85EA2A4BA7DE684E2C6E8793298290''"
  by (simp add: import_key_and_check_status_def fingerprints_def
        tor_browser_developers_fingerprint_def signing_keys_def example_common_def
        reporting_engine_def)

text \<open>
  For a key name of the registry the method raises in one case only: the engine completed
  the import and its result lists no key.
\<close>

lemma import_key_raises_iff:
  assumes "key \<in> dom fingerprints"
  shows "(\<exists>e. import_key_and_check_status engine key s = Inl e)
           \<longleftrightarrow> (\<exists>material homedir result.
                  signing_keys s key = Some (File material)
                  \<and> engine material (gnupg_homedir s) = (homedir, EngineResult (Some result))
                  \<and> result_imports result = [])"
proof -
  from assms obtain expected where expected: "fingerprints key = Some expected" by blast
  from assms obtain impkey where impkey: "signing_keys s key = Some impkey"
    by (auto simp: fingerprints_def signing_keys_def split: if_splits)
  show ?thesis
  proof (cases impkey)
    case (File material)
    obtain homedir reply where reply: "engine material (gnupg_homedir s) = (homedir, reply)"
      by (cases "engine material (gnupg_homedir s)")
    show ?thesis
    proof (cases reply)
      case EngineError
      with expected impkey File reply show ?thesis
        by (simp add: import_key_and_check_status_def)
    next
      case (EngineResult result)
      with expected impkey File reply show ?thesis
        by (cases result)
           (simp_all add: import_key_and_check_status_def split: list.splits)
    qed
  qed (use impkey in \<open>simp_all add: import_key_and_check_status_def\<close>)
qed

text \<open>
  Claim C2 says that \<^verbatim>\<open>import_key_and_check_status\<close> never raises. When the engine completes
  the import and its result lists no key, as for a refreshed file that holds a web page
  and no key, \<^verbatim>\<open>result.imports[0]\<close> raises \<^verbatim>\<open>IndexError\<close> after the \<^verbatim>\<open>try\<close> has ended.
\<close>

theorem import_key_raises_on_empty_imports:
  "import_key_and_check_status no_keys_engine ''wkd_tmp''
       (example_common\<lparr>wkd_tmp := File ''<html>not a key</html>''\<rparr>)
     = Inl IndexError"
  by (simp add: import_key_and_check_status_def fingerprints_def signing_keys_def
        example_common_def no_keys_engine_def)

section \<open>Properties of the mirror list\<close>

text \<open>
  \<open>first_occurrences\<close> keeps the first copy of every entry; it is the library's \<open>remdups\<close>,
  which keeps the last copy, run on the reversed list.
\<close>

lemma first_occurrences_filter:
  "first_occurrences (filter P xs) = filter P (first_occurrences xs)"
proof (induction xs rule: first_occurrences.induct)
  case 1
  show ?case by simp
next
  case (2 x xs)
  have swap: "filter P (filter (\<lambda>y. y \<noteq> x) xs) = filter (\<lambda>y. y \<noteq> x) (filter P xs)"
    by (simp add: conj_commute)
  show ?case
  proof (cases "P x")
    case True
    with 2 swap show ?thesis by simp
  next
    case False
    have "filter P (filter (\<lambda>y. y \<noteq> x) xs) = filter P xs"
      using False by (auto intro: filter_cong)
    with 2 False show ?thesis by simp
  qed
qed

lemma set_first_occurrences: "set (first_occurrences xs) = set xs"
  by (induction xs rule: first_occurrences.induct) auto

lemma distinct_first_occurrences: "distinct (first_occurrences xs)"
  by (induction xs rule: first_occurrences.induct) (auto simp: set_first_occurrences)

lemma first_occurrences_append:
  "first_occurrences (xs @ ys)
     = first_occurrences xs @ first_occurrences (filter (\<lambda>y. y \<notin> set xs) ys)"
proof (induction xs arbitrary: ys rule: first_occurrences.induct)
  case 1
  show ?case by simp
next
  case (2 x xs)
  have "filter (\<lambda>y. y \<notin> set (filter (\<lambda>y. y \<noteq> x) xs)) (filter (\<lambda>y. y \<noteq> x) ys)
          = filter (\<lambda>y. y \<notin> set (x # xs)) ys"
    by (auto intro: filter_cong)
  with 2 [of "filter (\<lambda>y. y \<noteq> x) ys"] show ?case by simp
qed

lemma first_occurrences_remdups: "first_occurrences xs = rev (remdups (rev xs))"
proof (induction xs rule: first_occurrences.induct)
  case 1
  show ?case by simp
next
  case (2 x xs)
  have "remdups (ys @ [x]) = remdups (filter (\<lambda>y. y \<noteq> x) ys) @ [x]" for ys
    by (induction ys) auto
  from this [of "rev xs"] 2 show ?case by (simp add: rev_filter)
qed

lemma add_mirrors_first_occurrences:
  "add_mirrors ms ls = ms @ first_occurrences (filter (\<lambda>m. m \<notin> set ms) (map strip ls))"
proof (induction ls arbitrary: ms)
  case Nil
  show ?case by simp
next
  case (Cons line rest)
  have "filter (\<lambda>y. y \<noteq> strip line) (filter (\<lambda>m. m \<notin> set ms) (map strip rest))
          = filter (\<lambda>m. m \<notin> set (ms @ [strip line])) (map strip rest)"
    by (auto intro: filter_cong)
  with Cons show ?case by (simp add: Let_def)
qed

lemma load_mirrors_from_first_occurrences:
  assumes "\<forall>src \<in> set srcs. src \<noteq> Dir \<and> (\<forall>e. src \<noteq> File (Undecodable e))"
  shows "load_mirrors_from (first_occurrences acc) srcs
           = Inr (first_occurrences (acc @ trimmed_lines srcs))"
  using assms
proof (induction srcs arbitrary: acc)
  case Nil
  show ?case by simp
next
  case (Cons src rest)
  show ?case
  proof (cases src)
    case Absent
    with Cons show ?thesis by (simp add: read_decoded_def open_read_def)
  next
    case Dir
    with Cons.prems show ?thesis by simp
  next
    case (File c)
    with Cons.prems obtain body where c: "c = Decodes body" by (cases c) auto
    have "add_mirrors (first_occurrences acc) (file_lines body)
            = first_occurrences (acc @ map strip (file_lines body))"
      by (simp add: add_mirrors_first_occurrences first_occurrences_append set_first_occurrences)
    with Cons.IH [of "acc @ map strip (file_lines body)"] Cons.prems File c
    show ?thesis by (simp add: read_decoded_def open_read_def)
  qed
qed

text \<open>
  Claim C5, as the code has it. When every source file is a readable text file or is
  missing, \<^verbatim>\<open>load_mirrors\<close> leaves in \<^verbatim>\<open>self.mirrors\<close> each distinct trimmed line exactly
  once, in the order of first occurrence across the files in the order given. A blank line
  is trimmed to the empty string and is an entry like any other. A missing file contributes
  nothing and raises nothing.
\<close>

theorem load_mirrors_first_occurrences:
  assumes "\<forall>src \<in> set (mirrors_txt s). src \<noteq> Dir \<and> (\<forall>e. src \<noteq> File (Undecodable e))"
  shows "load_mirrors s = Inr (s\<lparr>mirrors := first_occurrences (trimmed_lines (mirrors_txt s))\<rparr>)
       \<and> distinct (first_occurrences (trimmed_lines (mirrors_txt s)))
       \<and> set (first_occurrences (trimmed_lines (mirrors_txt s))) = set (trimmed_lines (mirrors_txt s))
       \<and> (\<forall>before after. trimmed_lines (before @ Absent # after) = trimmed_lines (before @ after))"
proof -
  have "load_mirrors_from [] (mirrors_txt s)
          = Inr (first_occurrences (trimmed_lines (mirrors_txt s)))"
    using load_mirrors_from_first_occurrences [OF assms, of "[]"] by simp
  then have run: "load_mirrors s
      = Inr (s\<lparr>mirrors := first_occurrences (trimmed_lines (mirrors_txt s))\<rparr>)"
    by (simp add: load_mirrors_def)
  have skip: "trimmed_lines (before @ Absent # after) = trimmed_lines (before @ after)"
    for before after :: "string decoded entry list"
    by (induction before rule: trimmed_lines.induct) simp_all
  from run skip show ?thesis
    by (simp add: distinct_first_occurrences set_first_occurrences)
qed

theorem load_mirrors_first_occurrences_witness:
  "load_mirrors (example_common\<lparr>mirrors_txt :=
           [File (Decodes ''https://dist.torproject.org/\<newline>https://mirror.example/\<newline>''), Absent,
            File (Decodes ''  https://mirror.example/ \<newline>https://dist.torproject.org/\<newline>https://other.example/'')]\<rparr>)
     = Inr (example_common\<lparr>mirrors_txt :=
           [File (Decodes ''https://dist.torproject.org/\<newline>https://mirror.example/\<newline>''), Absent,
            File (Decodes ''  https://mirror.example/ \<newline>https://dist.torproject.org/\<newline>https://other.example/'')],
           mirrors := [''https://dist.torproject.org/'', ''https://mirror.example/'', ''https://other.example/'']\<rparr>)"
  using load_mirrors_first_occurrences [of "example_common\<lparr>mirrors_txt :=
           [File (Decodes ''https://dist.torproject.org/\<newline>https://mirror.example/\<newline>''), Absent,
            File (Decodes ''  https://mirror.example/ \<newline>https://dist.torproject.org/\<newline>https://other.example/'')]\<rparr>"]
  by (simp add: example_common_def file_lines_def strip_def isspace_def)

text \<open>
  Claim C5, as stated, says that empty lines contribute nothing. The loop has no test for
  the empty string: a blank line between two mirrors puts the empty string into the list.
\<close>

theorem load_mirrors_keeps_empty_line:
  "load_mirrors (example_common\<lparr>mirrors_txt :=
           [File (Decodes ''https://dist.torproject.org/\<newline>\<newline>https://mirror.example/\<newline>''), Absent]\<rparr>)
     = Inr (example_common\<lparr>mirrors_txt :=
           [File (Decodes ''https://dist.torproject.org/\<newline>\<newline>https://mirror.example/\<newline>''), Absent],
           mirrors := [''https://dist.torproject.org/'', [], ''https://mirror.example/'']\<rparr>)"
  by (simp add: load_mirrors_def read_decoded_def open_read_def example_common_def file_lines_def
        strip_def isspace_def)

section \<open>Properties of the settings store\<close>

text \<open>
  Reading the dictionary after the three blocks: what \<open>map_of\<close> finds under each key.
\<close>

lemma map_of_fold_update:
  "map_of (fold (\<lambda>(k, v). AList.update k v) ms d) = map_of d ++ map_of (rev ms)"
proof (induction ms arbitrary: d)
  case Nil
  show ?case by simp
next
  case (Cons m ms)
  obtain k v where m: "m = (k, v)" by (cases m)
  have "map_of (fold (\<lambda>(k, v). AList.update k v) (m # ms) d)
          = (map_of d)(k \<mapsto> v) ++ map_of (rev ms)"
    using Cons [of "AList.update k v d"] m by (simp add: AList.update_conv' fun_upd_def)
  also have "\<dots> = map_of d ++ map_of (rev (m # ms))"
    using m by (simp add: fun_eq_iff map_add_def split: option.splits)
  finally show ?case .
qed

lemma map_of_missing_settings:
  "map_of (rev (missing_settings defaults d)) k
     = (if map_of d k = None then map_of (rev defaults) k else None)"
  unfolding missing_settings_def
  by (induction defaults) (auto simp: map_add_def split: option.splits)

lemma map_of_make_up_to_date:
  "map_of (fst (make_up_to_date defaults d)) k
     = (case map_of d k of None \<Rightarrow> map_of (rev defaults) k | Some v \<Rightarrow> Some v)"
  by (simp add: make_up_to_date_def Let_def map_of_fold_update map_of_missing_settings
        map_add_def split: option.splits)

lemma strip_tcp_Inr:
  assumes "strip_tcp (d, resave) = Inr (d', resave')"
  shows "\<exists>addr. map_of d ''tor_socks_address'' = Some (PStr addr)
           \<and> map_of d' = (map_of d)(''tor_socks_address'' \<mapsto>
                             PStr (if prefix ''tcp:'' addr then drop 4 addr else addr))"
  using assms
  by (auto simp: strip_tcp_def AList.update_conv' fun_eq_iff
           split: option.splits pyval.splits if_splits)

lemma make_version_current_Inr:
  assumes "make_version_current version (d, resave) = Inr (d', resave')"
  shows "map_of d ''tbl_version'' \<noteq> None \<and> map_of d' = (map_of d)(''tbl_version'' \<mapsto> PStr version)"
  using assms
  by (auto simp: make_version_current_def AList.update_conv' fun_eq_iff
           split: option.splits if_splits)

lemma default_settings_lookup:
  "map_of (rev (default_settings s)) ''tbl_version'' = Some (PStr (tbl_version s))"
  "map_of (rev (default_settings s)) ''installed'' = Some (PBool False)"
  "map_of (rev (default_settings s)) ''download_over_tor'' = Some (PBool False)"
  "map_of (rev (default_settings s)) ''tor_socks_address'' = Some (PStr ''127.0.0.1:9050'')"
  "map_of (rev (default_settings s)) ''mirror'' = Some (PStr default_mirror)"
  by (simp_all add: default_settings_def)

lemma save_settings_Inr:
  "save_settings s = Inr s' \<Longrightarrow>
     settings s' = settings s \<and> tbl_version s' = tbl_version s
     \<and> (\<exists>v. settings s = Some v \<and> settings_file s' = File (Decodes v))"
  by (auto simp: save_settings_def split: entry.splits option.splits)

lemma load_settings_json_Inr:
  assumes "load_settings_json loaded s = Inr s'"
  obtains d0 d2 r2 d3 r3 d4 r4 where
    "loaded = PDict d0"
    "make_up_to_date (default_settings s)
       (AList.update ''installed'' (PBool (is_file (tbb_start s))) d0) = (d2, r2)"
    "strip_tcp (d2, r2) = Inr (d3, r3)"
    "make_version_current (tbl_version s) (d3, r3) = Inr (d4, r4)"
    "settings s' = Some (PDict d4)" "tbl_version s' = tbl_version s"
    "settings_file s' = (if r4 then File (Decodes (PDict d4)) else settings_file s)"
proof (cases loaded)
  case (PDict d0)
  obtain d2 r2 where up: "make_up_to_date (default_settings s)
       (AList.update ''installed'' (PBool (is_file (tbb_start s))) d0) = (d2, r2)"
    by (cases "make_up_to_date (default_settings s)
       (AList.update ''installed'' (PBool (is_file (tbb_start s))) d0)")
  have run: "load_settings_json loaded s =
      (case strip_tcp (d2, r2) of
         Inl e \<Rightarrow> Inl e
       | Inr p \<Rightarrow>
           (case make_version_current (tbl_version s) p of
              Inl e \<Rightarrow> Inl e
            | Inr (d, resave) \<Rightarrow>
                (if resave then save_settings (s\<lparr>settings := Some (PDict d)\<rparr>)
                 else Inr (s\<lparr>settings := Some (PDict d)\<rparr>))))"
    unfolding load_settings_json_def Let_def by (simp add: PDict up)
  obtain p3 where st': "strip_tcp (d2, r2) = Inr p3"
    using assms run by (cases "strip_tcp (d2, r2)") simp_all
  obtain p4 where mv': "make_version_current (tbl_version s) p3 = Inr p4"
    using assms run st' by (cases "make_version_current (tbl_version s) p3") simp_all
  obtain d3 r3 where p3: "p3 = (d3, r3)" by (cases p3)
  obtain d4 r4 where p4: "p4 = (d4, r4)" by (cases p4)
  have last: "(if r4 then save_settings (s\<lparr>settings := Some (PDict d4)\<rparr>)
               else Inr (s\<lparr>settings := Some (PDict d4)\<rparr>)) = Inr s'"
    using assms run st' mv' p4 by simp
  have "settings s' = Some (PDict d4) \<and> tbl_version s' = tbl_version s
          \<and> settings_file s' = (if r4 then File (Decodes (PDict d4)) else settings_file s)"
  proof (cases r4)
    case True
    with last have "save_settings (s\<lparr>settings := Some (PDict d4)\<rparr>) = Inr s'" by simp
    from save_settings_Inr [OF this] True show ?thesis by simp
  next
    case False
    with last have "s' = s\<lparr>settings := Some (PDict d4)\<rparr>" by simp
    with False show ?thesis by simp
  qed
  with PDict up st' mv' p3 p4 that show ?thesis by simp
qed (use assms in \<open>simp_all add: load_settings_json_def\<close>)



lemma load_settings_json_invariant:
  assumes "load_settings_json loaded s = Inr s'"
  obtains d0 d where
    "loaded = PDict d0" "settings s' = Some (PDict d)" "tbl_version s' = tbl_version s"
    "map_of d ''tbl_version'' = Some (PStr (tbl_version s))"
    "map_of d ''installed'' = Some (PBool (is_file (tbb_start s)))"
    "\<forall>(k, v) \<in> set (default_settings s). map_of d k \<noteq> None"
    "\<forall>(k, v) \<in> set (default_settings s).
       k \<noteq> ''installed'' \<longrightarrow> map_of d0 k = None \<longrightarrow> map_of d k = Some v"
proof -
  from assms obtain d0 d2 r2 d3 r3 d4 r4 where
    loaded: "loaded = PDict d0" and
    up: "make_up_to_date (default_settings s)
       (AList.update ''installed'' (PBool (is_file (tbb_start s))) d0) = (d2, r2)" and
    st: "strip_tcp (d2, r2) = Inr (d3, r3)" and
    mv: "make_version_current (tbl_version s) (d3, r3) = Inr (d4, r4)" and
    s': "settings s' = Some (PDict d4)" "tbl_version s' = tbl_version s" and
    written: "settings_file s' = (if r4 then File (Decodes (PDict d4)) else settings_file s)"
    by (rule load_settings_json_Inr)
  have d2: "map_of d2 k
              = (if k = ''installed'' then Some (PBool (is_file (tbb_start s)))
                 else case map_of d0 k of None \<Rightarrow> map_of (rev (default_settings s)) k
                      | Some v \<Rightarrow> Some v)" for k
    using map_of_make_up_to_date [of "default_settings s"
            "AList.update ''installed'' (PBool (is_file (tbb_start s))) d0" k] up
    by (simp add: AList.update_conv')
  from strip_tcp_Inr [OF st] obtain addr where
    addr: "map_of d2 ''tor_socks_address'' = Some (PStr addr)" and
    d3: "map_of d3 = (map_of d2)(''tor_socks_address'' \<mapsto>
                             PStr (if prefix ''tcp:'' addr then drop 4 addr else addr))"
    by blast
  from make_version_current_Inr [OF mv]
  have d4: "map_of d4 = (map_of d3)(''tbl_version'' \<mapsto> PStr (tbl_version s))" by simp
  have version: "map_of d4 ''tbl_version'' = Some (PStr (tbl_version s))"
    by (simp add: d4)
  have installed: "map_of d4 ''installed'' = Some (PBool (is_file (tbb_start s)))"
    by (simp add: d4 d3 d2)
  have address: "map_of d4 ''tor_socks_address''
                   = Some (PStr (if prefix ''tcp:'' addr then drop 4 addr else addr))"
    by (simp add: d4 d3)
  have default_address: "map_of d4 ''tor_socks_address'' = Some (PStr ''127.0.0.1:9050'')"
    if "map_of d0 ''tor_socks_address'' = None"
  proof -
    from addr that have "addr = ''127.0.0.1:9050''"
      by (simp add: d2 default_settings_lookup)
    with address show ?thesis by simp
  qed
  have over_tor: "map_of d4 ''download_over_tor''
                    = (case map_of d0 ''download_over_tor'' of None \<Rightarrow> Some (PBool False)
                       | Some v \<Rightarrow> Some v)"
    by (simp add: d4 d3 d2 default_settings_lookup split: option.splits)
  have mirror: "map_of d4 ''mirror''
                  = (case map_of d0 ''mirror'' of None \<Rightarrow> Some (PStr default_mirror)
                     | Some v \<Rightarrow> Some v)"
    by (simp add: d4 d3 d2 default_settings_lookup split: option.splits)
  have present: "\<forall>(k, v) \<in> set (default_settings s). map_of d4 k \<noteq> None"
    by (simp add: default_settings_def version installed address over_tor mirror
          split: option.splits)
  have backfilled: "\<forall>(k, v) \<in> set (default_settings s).
       k \<noteq> ''installed'' \<longrightarrow> map_of d0 k = None \<longrightarrow> map_of d4 k = Some v"
    by (simp add: default_settings_def version default_address over_tor mirror)
  from loaded s' version installed present backfilled show ?thesis by (rule that)
qed


text \<open>The paths of \<^verbatim>\<open>load_settings\<close>, one lemma each.\<close>

lemma read_decoded_simps [simp]:
  "read_decoded Absent = Inl FileNotFoundError"
  "read_decoded Dir = Inl IsADirectoryError"
  "read_decoded (File (Undecodable e)) = Inl e"
  "read_decoded (File (Decodes v)) = Inr v"
  by (simp_all add: read_decoded_def open_read_def)

lemma read_decoded_Inr: "read_decoded e = Inr v \<longleftrightarrow> e = File (Decodes v)"
  by (simp add: read_decoded_def open_read_def split: entry.splits decoded.splits)

lemma load_settings_read:
  "read_decoded (settings_file s) = Inr loaded \<Longrightarrow> load_settings s = load_settings_json loaded s"
  by (subst load_settings.simps) simp

lemma load_settings_uncaught:
  "read_decoded (settings_file s) = Inl e \<Longrightarrow> \<not> missing_or_directory e \<Longrightarrow> load_settings s = Inl e"
  by (subst load_settings.simps) simp

lemma load_settings_convert:
  assumes "read_decoded (settings_file s) = Inl e" and "missing_or_directory e"
      and "read_decoded (settings_file_pickle s) = Inr obj"
  shows "load_settings s
           = (case save_settings (s\<lparr>settings := Some obj\<rparr>) of
                Inl x \<Rightarrow> Inl x
              | Inr s1 \<Rightarrow> load_settings (s1\<lparr>settings_file_pickle := Absent\<rparr>))"
  using assms by (subst load_settings.simps) simp

lemma load_settings_legacy_uncaught:
  assumes "read_decoded (settings_file s) = Inl e" and "missing_or_directory e"
      and "read_decoded (settings_file_pickle s) = Inl e'" and "\<not> missing_or_directory e'"
  shows "load_settings s = Inl e'"
  using assms by (subst load_settings.simps) simp

lemma load_settings_construct:
  assumes "read_decoded (settings_file s) = Inl e" and "missing_or_directory e"
      and "read_decoded (settings_file_pickle s) = Inl e'" and "missing_or_directory e'"
  shows "load_settings s = save_settings (s\<lparr>settings := Some (PDict (default_settings s))\<rparr>)"
  using assms by (subst load_settings.simps) simp

lemma load_settings_json_file:
  "settings_file s = File (Decodes loaded) \<Longrightarrow> load_settings s = load_settings_json loaded s"
  by (rule load_settings_read) simp

lemma load_settings_undecodable:
  "settings_file s = File (Undecodable e) \<Longrightarrow> \<not> missing_or_directory e \<Longrightarrow> load_settings s = Inl e"
  by (rule load_settings_uncaught) simp_all

lemma load_settings_legacy:
  assumes "settings_file s = Absent" and "settings_file_pickle s = File (Decodes obj)"
  shows "load_settings s
           = load_settings (s\<lparr>settings := Some obj, settings_file := File (Decodes obj),
                              settings_file_pickle := Absent\<rparr>)"
  using assms load_settings_convert [of s FileNotFoundError obj]
  by (simp add: missing_or_directory_def save_settings_def)

lemma load_settings_default:
  assumes "settings_file s = Absent" and "\<not> is_file (settings_file_pickle s)"
  shows "load_settings s
           = Inr (s\<lparr>settings := Some (PDict (default_settings s)),
                   settings_file := File (Decodes (PDict (default_settings s)))\<rparr>)"
proof (cases "settings_file_pickle s")
  case Absent
  with assms load_settings_construct [of s FileNotFoundError FileNotFoundError]
  show ?thesis by (simp add: missing_or_directory_def save_settings_def)
next
  case Dir
  with assms load_settings_construct [of s FileNotFoundError IsADirectoryError]
  show ?thesis by (simp add: missing_or_directory_def save_settings_def)
next
  case (File c)
  with assms show ?thesis by (simp add: is_file_def)
qed

lemma strip_tcp_resave:
  assumes "strip_tcp (d, resave) = Inr (d', resave')"
      and "map_of d ''tor_socks_address'' = Some (PStr addr)" and "prefix ''tcp:'' addr"
  shows "resave'"
  using assms by (simp add: strip_tcp_def)

lemma make_version_current_resave:
  assumes "make_version_current version (d, resave) = Inr (d', resave')" and "resave"
  shows "resave'"
  using assms by (auto simp: make_version_current_def split: option.splits if_splits)

text \<open>
  The order in which the missing defaults are added does not change what the dictionary
  holds under each key.
\<close>

lemma backfill_order_irrelevant:
  assumes "distinct (map fst ms)" and "distinct (map fst ms')" and "set ms' = set ms"
  shows "map_of (fold (\<lambda>(k, v). AList.update k v) ms' d)
           = map_of (fold (\<lambda>(k, v). AList.update k v) ms d)"
proof -
  have "map_of (rev ms') = map_of (rev ms)"
    using assms by (subst map_of_inject_set) (simp_all add: rev_map [symmetric])
  then show ?thesis by (simp add: map_of_fold_update)
qed

lemma default_settings_complete:
  "map_of (default_settings s) ''tbl_version'' = Some (PStr (tbl_version s))"
  "\<forall>(k, v) \<in> set (default_settings s). map_of (default_settings s) k \<noteq> None"
  by (simp_all add: default_settings_def)

text \<open>
  Claim C9. With neither settings file present and the running version 1.2.3,
  \<^verbatim>\<open>load_settings\<close> leaves the default record in \<^verbatim>\<open>self.settings\<close> and writes exactly that
  record to the settings file.
\<close>

theorem load_settings_writes_defaults:
  assumes "settings_file s = Absent" and "settings_file_pickle s = Absent"
      and "tbl_version s = ''1.2.3''"
  shows "load_settings s
           = Inr (s\<lparr>settings := Some (PDict
                      [(''tbl_version'', PStr ''1.2.3''),
                       (''installed'', PBool False),
                       (''download_over_tor'', PBool False),
                       (''tor_socks_address'', PStr ''127.0.0.1:9050''),
                       (''mirror'', PStr ''https://dist.torproject.org/'')]),
                   settings_file := File (Decodes (PDict
                      [(''tbl_version'', PStr ''1.2.3''),
                       (''installed'', PBool False),
                       (''download_over_tor'', PBool False),
                       (''tor_socks_address'', PStr ''127.0.0.1:9050''),
                       (''mirror'', PStr ''https://dist.torproject.org/'')]))\<rparr>)"
  using assms load_settings_default [of s]
  by (simp add: is_file_def default_settings_def default_mirror_def)

theorem load_settings_writes_defaults_witness:
  "load_settings example_common
     = Inr (example_common\<lparr>settings := Some (PDict
                      [(''tbl_version'', PStr ''1.2.3''),
                       (''installed'', PBool False),
                       (''download_over_tor'', PBool False),
                       (''tor_socks_address'', PStr ''127.0.0.1:9050''),
                       (''mirror'', PStr ''https://dist.torproject.org/'')]),
                   settings_file := File (Decodes (PDict
                      [(''tbl_version'', PStr ''1.2.3''),
                       (''installed'', PBool False),
                       (''download_over_tor'', PBool False),
                       (''tor_socks_address'', PStr ''127.0.0.1:9050''),
                       (''mirror'', PStr ''https://dist.torproject.org/'')]))\<rparr>)"
  using load_settings_writes_defaults [of example_common]
  by (simp add: example_common_def)

text \<open>
  Claim C4, as the code has it. A missing settings file is treated as absent: with no
  legacy file to convert, \<^verbatim>\<open>load_settings\<close> constructs the complete default record, keeps it
  and writes it. A settings file that is not well-formed JSON is not treated as absent:
  the decoder's exception is none of the two the \<^verbatim>\<open>try\<close> catches, and it reaches the caller.
\<close>

theorem load_settings_missing_or_malformed:
  "(settings_file s = Absent \<and> \<not> is_file (settings_file_pickle s) \<longrightarrow>
      load_settings s
        = Inr (s\<lparr>settings := Some (PDict (default_settings s)),
                settings_file := File (Decodes (PDict (default_settings s)))\<rparr>))
   \<and> (settings_file s = File (Undecodable JSONDecodeError) \<longrightarrow>
        load_settings s = Inl JSONDecodeError)"
proof (intro conjI impI)
  assume "settings_file s = Absent \<and> \<not> is_file (settings_file_pickle s)"
  then show "load_settings s
        = Inr (s\<lparr>settings := Some (PDict (default_settings s)),
                settings_file := File (Decodes (PDict (default_settings s)))\<rparr>)"
    by (simp add: load_settings_default)
next
  assume "settings_file s = File (Undecodable JSONDecodeError)"
  then show "load_settings s = Inl JSONDecodeError"
    by (rule load_settings_undecodable) (simp add: missing_or_directory_def)
qed

theorem load_settings_missing_or_malformed_witness:
  "load_settings (example_common\<lparr>settings_file_pickle := Dir\<rparr>)
     = Inr (example_common\<lparr>settings_file_pickle := Dir,
              settings := Some (PDict (default_settings example_common)),
              settings_file := File (Decodes (PDict (default_settings example_common)))\<rparr>)
   \<and> load_settings (example_common\<lparr>settings_file := File (Undecodable JSONDecodeError),
                                      tbb_start := File []\<rparr>)
     = Inl JSONDecodeError"
  using load_settings_missing_or_malformed [of "example_common\<lparr>settings_file_pickle := Dir\<rparr>"]
        load_settings_missing_or_malformed
          [of "example_common\<lparr>settings_file := File (Undecodable JSONDecodeError),
                               tbb_start := File []\<rparr>"]
  by (simp add: example_common_def is_file_def default_settings_def)

text \<open>
  Claim C4, as stated, says that malformed JSON leads to default construction without an
  exception. It raises.
\<close>

theorem load_settings_raises_on_malformed_json:
  "load_settings (example_common\<lparr>settings_file := File (Undecodable JSONDecodeError)\<rparr>)
     = Inl JSONDecodeError"
  by (rule load_settings_undecodable) (simp_all add: example_common_def missing_or_directory_def)

text \<open>
  Claim C6. With the JSON settings file missing and a legacy file that unpickles to a
  record, \<^verbatim>\<open>load_settings\<close> writes that record as JSON, unlinks the legacy file and runs
  again; the second run reads the JSON file and does not recurse. For the legacy record of
  the scenario the result contains the address without its prefix and the running version,
  in memory and in the file, and the legacy file is gone.
\<close>

theorem load_settings_migrates_legacy:
  assumes "settings_file s = Absent" and "settings_file_pickle s = File (Decodes obj)"
  shows "load_settings s
           = load_settings (s\<lparr>settings := Some obj, settings_file := File (Decodes obj),
                              settings_file_pickle := Absent\<rparr>)
       \<and> load_settings s
           = load_settings_json obj (s\<lparr>settings := Some obj, settings_file := File (Decodes obj),
                                        settings_file_pickle := Absent\<rparr>)
       \<and> (obj = legacy_record \<longrightarrow>
            load_settings s
              = Inr (s\<lparr>settings := Some (PDict
                         [(''tbl_version'', PStr (tbl_version s)),
                          (''installed'', PBool (is_file (tbb_start s))),
                          (''download_over_tor'', PBool True),
                          (''tor_socks_address'', PStr ''10.0.0.1:9050''),
                          (''mirror'', PStr ''https://example.org/'')]),
                      settings_file := File (Decodes (PDict
                         [(''tbl_version'', PStr (tbl_version s)),
                          (''installed'', PBool (is_file (tbb_start s))),
                          (''download_over_tor'', PBool True),
                          (''tor_socks_address'', PStr ''10.0.0.1:9050''),
                          (''mirror'', PStr ''https://example.org/'')])),
                      settings_file_pickle := Absent\<rparr>))"
proof -
  let ?s1 = "s\<lparr>settings := Some obj, settings_file := File (Decodes obj),
               settings_file_pickle := Absent\<rparr>"
  have rerun: "load_settings s = load_settings ?s1"
    using assms by (rule load_settings_legacy)
  have json: "load_settings ?s1 = load_settings_json obj ?s1"
    by (rule load_settings_json_file) simp
  have final: "load_settings_json legacy_record
                 (s\<lparr>settings := Some legacy_record, settings_file := File (Decodes legacy_record),
                    settings_file_pickle := Absent\<rparr>)
              = Inr (s\<lparr>settings := Some (PDict
                         [(''tbl_version'', PStr (tbl_version s)),
                          (''installed'', PBool (is_file (tbb_start s))),
                          (''download_over_tor'', PBool True),
                          (''tor_socks_address'', PStr ''10.0.0.1:9050''),
                          (''mirror'', PStr ''https://example.org/'')]),
                      settings_file := File (Decodes (PDict
                         [(''tbl_version'', PStr (tbl_version s)),
                          (''installed'', PBool (is_file (tbb_start s))),
                          (''download_over_tor'', PBool True),
                          (''tor_socks_address'', PStr ''10.0.0.1:9050''),
                          (''mirror'', PStr ''https://example.org/'')])),
                      settings_file_pickle := Absent\<rparr>)"
    by (simp add: load_settings_json_def legacy_record_def make_up_to_date_def
          missing_settings_def strip_tcp_def make_version_current_def default_settings_def
          save_settings_def Let_def)
  from rerun json final show ?thesis by auto
qed

theorem load_settings_migrates_legacy_witness:
  "load_settings (example_common\<lparr>tbl_version := ''0.3.7'', tbb_start := File [],
                                  settings_file_pickle := File (Decodes legacy_record)\<rparr>)
     = Inr (example_common\<lparr>tbl_version := ''0.3.7'', tbb_start := File [],
              settings := Some (PDict
                         [(''tbl_version'', PStr ''0.3.7''),
                          (''installed'', PBool True),
                          (''download_over_tor'', PBool True),
                          (''tor_socks_address'', PStr ''10.0.0.1:9050''),
                          (''mirror'', PStr ''https://example.org/'')]),
              settings_file := File (Decodes (PDict
                         [(''tbl_version'', PStr ''0.3.7''),
                          (''installed'', PBool True),
                          (''download_over_tor'', PBool True),
                          (''tor_socks_address'', PStr ''10.0.0.1:9050''),
                          (''mirror'', PStr ''https://example.org/'')])),
              settings_file_pickle := Absent\<rparr>)"
proof -
  let ?s = "example_common\<lparr>tbl_version := ''0.3.7'', tbb_start := File [],
                          settings_file_pickle := File (Decodes legacy_record)\<rparr>"
  have files: "settings_file ?s = Absent" "settings_file_pickle ?s = File (Decodes legacy_record)"
    by (simp_all add: example_common_def)
  from load_settings_migrates_legacy [OF files]
  have "legacy_record = legacy_record \<longrightarrow>
          load_settings ?s
            = Inr (?s\<lparr>settings := Some (PDict
                         [(''tbl_version'', PStr (tbl_version ?s)),
                          (''installed'', PBool (is_file (tbb_start ?s))),
                          (''download_over_tor'', PBool True),
                          (''tor_socks_address'', PStr ''10.0.0.1:9050''),
                          (''mirror'', PStr ''https://example.org/'')]),
                      settings_file := File (Decodes (PDict
                         [(''tbl_version'', PStr (tbl_version ?s)),
                          (''installed'', PBool (is_file (tbb_start ?s))),
                          (''download_over_tor'', PBool True),
                          (''tor_socks_address'', PStr ''10.0.0.1:9050''),
                          (''mirror'', PStr ''https://example.org/'')])),
                      settings_file_pickle := Absent\<rparr>)"
    by (rule conjunct2 [OF conjunct2])
  then show ?thesis by (simp add: example_common_def is_file_def)
qed

text \<open>
  Claim C7, as the code has it. Whenever \<^verbatim>\<open>load_settings\<close> returns, \<^verbatim>\<open>self.settings\<close> is a
  dictionary that has every key of the defaults, and its \<^verbatim>\<open>tbl_version\<close> is the running
  version. When the record was read from the JSON settings file, or converted from the
  legacy file because the JSON file was missing, \<^verbatim>\<open>installed\<close> says whether the start file
  exists on the disk, and every other key that the loaded object lacked holds its default.
  When neither file exists the record is the defaults.
\<close>

theorem load_settings_invariant:
  assumes "load_settings s = Inr s'"
  shows "tbl_version s' = tbl_version s
       \<and> (\<exists>d. settings s' = Some (PDict d)
            \<and> map_of d ''tbl_version'' = Some (PStr (tbl_version s))
            \<and> (\<forall>(k, v) \<in> set (default_settings s). map_of d k \<noteq> None)
            \<and> (\<forall>d0. settings_file s = File (Decodes (PDict d0))
                     \<or> (settings_file s = Absent
                         \<and> settings_file_pickle s = File (Decodes (PDict d0))) \<longrightarrow>
                  map_of d ''installed'' = Some (PBool (is_file (tbb_start s)))
                  \<and> (\<forall>(k, v) \<in> set (default_settings s).
                        k \<noteq> ''installed'' \<longrightarrow> map_of d0 k = None \<longrightarrow> map_of d k = Some v))
            \<and> (settings_file s = Absent \<and> \<not> is_file (settings_file_pickle s) \<longrightarrow>
                  d = default_settings s))"
proof (cases "read_decoded (settings_file s)")
  case (Inr loaded)
  then have json_file: "settings_file s = File (Decodes loaded)"
    by (simp add: read_decoded_Inr)
  from Inr assms have "load_settings_json loaded s = Inr s'"
    by (simp add: load_settings_read)
  then obtain d0 d where
    inv: "loaded = PDict d0" "settings s' = Some (PDict d)" "tbl_version s' = tbl_version s"
      "map_of d ''tbl_version'' = Some (PStr (tbl_version s))"
      "map_of d ''installed'' = Some (PBool (is_file (tbb_start s)))"
      "\<forall>(k, v) \<in> set (default_settings s). map_of d k \<noteq> None"
      "\<forall>(k, v) \<in> set (default_settings s).
         k \<noteq> ''installed'' \<longrightarrow> map_of d0 k = None \<longrightarrow> map_of d k = Some v"
    by (rule load_settings_json_invariant)
  have loaded_object: "\<forall>d0'. settings_file s = File (Decodes (PDict d0'))
                     \<or> (settings_file s = Absent
                         \<and> settings_file_pickle s = File (Decodes (PDict d0'))) \<longrightarrow>
                  map_of d ''installed'' = Some (PBool (is_file (tbb_start s)))
                  \<and> (\<forall>(k, v) \<in> set (default_settings s).
                        k \<noteq> ''installed'' \<longrightarrow> map_of d0' k = None \<longrightarrow> map_of d k = Some v)"
    using json_file inv(1) inv(5) inv(7) by simp
  from inv(2,3,4,6) loaded_object json_file show ?thesis by simp
next
  case (Inl e)
  note no_json = Inl
  have not_decoded: "settings_file s \<noteq> File (Decodes v)" for v
    using no_json by (auto simp: read_decoded_Inr [symmetric])
  show ?thesis
  proof (cases "missing_or_directory e")
    case False
    with no_json assms show ?thesis by (simp add: load_settings_uncaught)
  next
    case True
    note caught = True
    show ?thesis
    proof (cases "read_decoded (settings_file_pickle s)")
      case (Inr obj)
      then have legacy: "settings_file_pickle s = File (Decodes obj)"
        by (simp add: read_decoded_Inr)
      let ?s1 = "s\<lparr>settings := Some obj, settings_file := File (Decodes obj),
                   settings_file_pickle := Absent\<rparr>"
      have same: "default_settings ?s1 = default_settings s" "tbl_version ?s1 = tbl_version s"
        "tbb_start ?s1 = tbb_start s"
        by (simp_all add: default_settings_def)
      from load_settings_convert [OF no_json caught Inr] assms
      have "load_settings ?s1 = Inr s'"
        by (simp add: save_settings_def split: entry.splits)
      moreover have "load_settings ?s1 = load_settings_json obj ?s1"
        by (rule load_settings_json_file) simp
      ultimately have "load_settings_json obj ?s1 = Inr s'" by simp
      then obtain d0 d where
        inv: "obj = PDict d0" "settings s' = Some (PDict d)" "tbl_version s' = tbl_version ?s1"
          "map_of d ''tbl_version'' = Some (PStr (tbl_version ?s1))"
          "map_of d ''installed'' = Some (PBool (is_file (tbb_start ?s1)))"
          "\<forall>(k, v) \<in> set (default_settings ?s1). map_of d k \<noteq> None"
          "\<forall>(k, v) \<in> set (default_settings ?s1).
             k \<noteq> ''installed'' \<longrightarrow> map_of d0 k = None \<longrightarrow> map_of d k = Some v"
        by (rule load_settings_json_invariant)
      have loaded_object: "\<forall>d0'. settings_file s = File (Decodes (PDict d0'))
                     \<or> (settings_file s = Absent
                         \<and> settings_file_pickle s = File (Decodes (PDict d0'))) \<longrightarrow>
                  map_of d ''installed'' = Some (PBool (is_file (tbb_start s)))
                  \<and> (\<forall>(k, v) \<in> set (default_settings s).
                        k \<noteq> ''installed'' \<longrightarrow> map_of d0' k = None \<longrightarrow> map_of d k = Some v)"
        using not_decoded legacy inv(1) inv(5) inv(7) unfolding same by simp
      have no_defaults: "settings_file s = Absent \<and> \<not> is_file (settings_file_pickle s) \<longrightarrow>
                           d = default_settings s"
        using legacy by (simp add: is_file_def)
      from inv(2,3,4,6) loaded_object no_defaults show ?thesis unfolding same by simp
    next
      case (Inl e')
      note no_legacy = Inl
      have not_legacy: "settings_file_pickle s \<noteq> File (Decodes v)" for v
        using no_legacy by (auto simp: read_decoded_Inr [symmetric])
      show ?thesis
      proof (cases "missing_or_directory e'")
        case False
        with no_json caught no_legacy assms show ?thesis
          by (simp add: load_settings_legacy_uncaught)
      next
        case True
        from load_settings_construct [OF no_json caught no_legacy True] assms
        have "save_settings (s\<lparr>settings := Some (PDict (default_settings s))\<rparr>) = Inr s'"
          by simp
        from save_settings_Inr [OF this]
        have s': "settings s' = Some (PDict (default_settings s))" "tbl_version s' = tbl_version s"
          by simp_all
        from s' not_decoded not_legacy default_settings_complete [of s]
        show ?thesis by simp
      qed
    qed
  qed
qed

theorem load_settings_invariant_witness:
  "(\<exists>s' d. load_settings (example_common\<lparr>tbb_start := File [], settings_file := File (Decodes (PDict
        [(''tbl_version'', PStr ''0.3.7''), (''installed'', PBool False),
         (''download_over_tor'', PBool True),
         (''tor_socks_address'', PStr ''127.0.0.1:9150'')]))\<rparr>) = Inr s'
      \<and> settings s' = Some (PDict d)
      \<and> map_of d ''tbl_version'' = Some (PStr ''1.2.3'')
      \<and> map_of d ''installed'' = Some (PBool True)
      \<and> map_of d ''mirror'' = Some (PStr ''https://dist.torproject.org/''))
   \<and> (\<exists>s' d. load_settings (example_common\<lparr>settings_file_pickle := File (Decodes (PDict
        [(''tbl_version'', PStr ''1.0.0''), (''installed'', PBool True),
         (''download_over_tor'', PBool True),
         (''tor_socks_address'', PStr ''tcp:10.0.0.1:9050'')]))\<rparr>) = Inr s'
      \<and> settings s' = Some (PDict d)
      \<and> map_of d ''tbl_version'' = Some (PStr ''1.2.3'')
      \<and> map_of d ''installed'' = Some (PBool False)
      \<and> map_of d ''mirror'' = Some (PStr ''https://dist.torproject.org/''))"
proof (intro conjI)
  let ?file = "[(''tbl_version'', PStr ''0.3.7''), (''installed'', PBool False),
              (''download_over_tor'', PBool True),
              (''tor_socks_address'', PStr ''127.0.0.1:9150'')]"
  let ?s = "example_common\<lparr>tbb_start := File [], settings_file := File (Decodes (PDict ?file))\<rparr>"
  let ?new = "[(''tbl_version'', PStr ''1.2.3''), (''installed'', PBool True),
             (''download_over_tor'', PBool True),
             (''tor_socks_address'', PStr ''127.0.0.1:9150''),
             (''mirror'', PStr ''https://dist.torproject.org/'')]"
  let ?s' = "example_common\<lparr>tbb_start := File [], settings := Some (PDict ?new),
               settings_file := File (Decodes (PDict ?new))\<rparr>"
  have "load_settings ?s = load_settings_json (PDict ?file) ?s"
    by (rule load_settings_json_file) simp
  also have "\<dots> = Inr ?s'"
    by (simp add: load_settings_json_def make_up_to_date_def missing_settings_def strip_tcp_def
          make_version_current_def default_settings_def default_mirror_def save_settings_def
          is_file_def example_common_def Let_def)
  finally have run: "load_settings ?s = Inr ?s'" .
  have json_file: "settings_file ?s = File (Decodes (PDict ?file))" by simp
  from load_settings_invariant [OF run] obtain d where
    d: "settings ?s' = Some (PDict d)" "map_of d ''tbl_version'' = Some (PStr (tbl_version ?s))"
    and loaded_object: "\<forall>d0. settings_file ?s = File (Decodes (PDict d0))
                     \<or> (settings_file ?s = Absent
                         \<and> settings_file_pickle ?s = File (Decodes (PDict d0))) \<longrightarrow>
        map_of d ''installed'' = Some (PBool (is_file (tbb_start ?s)))
        \<and> (\<forall>(k, v) \<in> set (default_settings ?s).
            k \<noteq> ''installed'' \<longrightarrow> map_of d0 k = None \<longrightarrow> map_of d k = Some v)"
    by blast
  from loaded_object json_file
  have "map_of d ''installed'' = Some (PBool (is_file (tbb_start ?s)))
        \<and> (\<forall>(k, v) \<in> set (default_settings ?s).
            k \<noteq> ''installed'' \<longrightarrow> map_of ?file k = None \<longrightarrow> map_of d k = Some v)"
    by blast
  with d have "settings ?s' = Some (PDict d) \<and> map_of d ''tbl_version'' = Some (PStr ''1.2.3'')
         \<and> map_of d ''installed'' = Some (PBool True)
         \<and> map_of d ''mirror'' = Some (PStr ''https://dist.torproject.org/'')"
    by (simp add: default_settings_def default_mirror_def example_common_def is_file_def)
  with run show "\<exists>s' d. load_settings ?s = Inr s'
      \<and> settings s' = Some (PDict d)
      \<and> map_of d ''tbl_version'' = Some (PStr ''1.2.3'')
      \<and> map_of d ''installed'' = Some (PBool True)
      \<and> map_of d ''mirror'' = Some (PStr ''https://dist.torproject.org/'')"
    by blast
next
  let ?legacy = "[(''tbl_version'', PStr ''1.0.0''), (''installed'', PBool True),
              (''download_over_tor'', PBool True),
              (''tor_socks_address'', PStr ''tcp:10.0.0.1:9050'')]"
  let ?s = "example_common\<lparr>settings_file_pickle := File (Decodes (PDict ?legacy))\<rparr>"
  let ?s1 = "?s\<lparr>settings := Some (PDict ?legacy), settings_file := File (Decodes (PDict ?legacy)),
                settings_file_pickle := Absent\<rparr>"
  let ?new = "[(''tbl_version'', PStr ''1.2.3''), (''installed'', PBool False),
             (''download_over_tor'', PBool True),
             (''tor_socks_address'', PStr ''10.0.0.1:9050''),
             (''mirror'', PStr ''https://dist.torproject.org/'')]"
  let ?s' = "example_common\<lparr>settings := Some (PDict ?new),
               settings_file := File (Decodes (PDict ?new)), settings_file_pickle := Absent\<rparr>"
  have no_json: "settings_file ?s = Absent"
    and legacy_file: "settings_file_pickle ?s = File (Decodes (PDict ?legacy))"
    by (simp_all add: example_common_def)
  have "load_settings ?s = load_settings ?s1"
    using no_json legacy_file by (rule load_settings_legacy)
  also have "\<dots> = load_settings_json (PDict ?legacy) ?s1"
    by (rule load_settings_json_file) simp
  also have "\<dots> = Inr ?s'"
    by (simp add: load_settings_json_def make_up_to_date_def missing_settings_def strip_tcp_def
          make_version_current_def default_settings_def default_mirror_def save_settings_def
          is_file_def example_common_def Let_def)
  finally have run: "load_settings ?s = Inr ?s'" .
  from load_settings_invariant [OF run] obtain d where
    d: "settings ?s' = Some (PDict d)" "map_of d ''tbl_version'' = Some (PStr (tbl_version ?s))"
    and loaded_object: "\<forall>d0. settings_file ?s = File (Decodes (PDict d0))
                     \<or> (settings_file ?s = Absent
                         \<and> settings_file_pickle ?s = File (Decodes (PDict d0))) \<longrightarrow>
        map_of d ''installed'' = Some (PBool (is_file (tbb_start ?s)))
        \<and> (\<forall>(k, v) \<in> set (default_settings ?s).
            k \<noteq> ''installed'' \<longrightarrow> map_of d0 k = None \<longrightarrow> map_of d k = Some v)"
    by blast
  from loaded_object no_json legacy_file
  have "map_of d ''installed'' = Some (PBool (is_file (tbb_start ?s)))
        \<and> (\<forall>(k, v) \<in> set (default_settings ?s).
            k \<noteq> ''installed'' \<longrightarrow> map_of ?legacy k = None \<longrightarrow> map_of d k = Some v)"
    by blast
  with d have "settings ?s' = Some (PDict d) \<and> map_of d ''tbl_version'' = Some (PStr ''1.2.3'')
         \<and> map_of d ''installed'' = Some (PBool False)
         \<and> map_of d ''mirror'' = Some (PStr ''https://dist.torproject.org/'')"
    by (simp add: default_settings_def default_mirror_def example_common_def is_file_def)
  with run show "\<exists>s' d. load_settings ?s = Inr s'
      \<and> settings s' = Some (PDict d)
      \<and> map_of d ''tbl_version'' = Some (PStr ''1.2.3'')
      \<and> map_of d ''installed'' = Some (PBool False)
      \<and> map_of d ''mirror'' = Some (PStr ''https://dist.torproject.org/'')"
    by blast
qed

text \<open>
  Claim C7, as stated, has every absent field backfilled with its default. A settings file
  without \<^verbatim>\<open>installed\<close> is loaded with \<^verbatim>\<open>installed\<close> true when the start file exists; the
  default is false.
\<close>

theorem load_settings_installed_from_disk:
  "load_settings (example_common\<lparr>tbb_start := File [], settings_file := File (Decodes (PDict
        [(''tbl_version'', PStr ''1.2.3''), (''download_over_tor'', PBool False),
         (''tor_socks_address'', PStr ''127.0.0.1:9050''),
         (''mirror'', PStr ''https://dist.torproject.org/'')]))\<rparr>)
     = Inr (example_common\<lparr>tbb_start := File [],
              settings_file := File (Decodes (PDict
                [(''tbl_version'', PStr ''1.2.3''), (''download_over_tor'', PBool False),
                 (''tor_socks_address'', PStr ''127.0.0.1:9050''),
                 (''mirror'', PStr ''https://dist.torproject.org/'')])),
              settings := Some (PDict
                [(''tbl_version'', PStr ''1.2.3''), (''download_over_tor'', PBool False),
                 (''tor_socks_address'', PStr ''127.0.0.1:9050''),
                 (''mirror'', PStr ''https://dist.torproject.org/''),
                 (''installed'', PBool True)])\<rparr>)
   \<and> map_of [(''tbl_version'', PStr ''1.2.3''), (''download_over_tor'', PBool False),
              (''tor_socks_address'', PStr ''127.0.0.1:9050''),
              (''mirror'', PStr ''https://dist.torproject.org/'')] ''installed'' = None
   \<and> map_of (default_settings example_common) ''installed'' = Some (PBool False)"
proof -
  let ?loaded = "PDict
        [(''tbl_version'', PStr ''1.2.3''), (''download_over_tor'', PBool False),
         (''tor_socks_address'', PStr ''127.0.0.1:9050''),
         (''mirror'', PStr ''https://dist.torproject.org/'')]"
  let ?s = "example_common\<lparr>tbb_start := File [], settings_file := File (Decodes ?loaded)\<rparr>"
  have "load_settings ?s = load_settings_json ?loaded ?s"
    by (rule load_settings_json_file) simp
  then show ?thesis
    by (simp add: load_settings_json_def make_up_to_date_def missing_settings_def strip_tcp_def
          make_version_current_def default_settings_def default_mirror_def save_settings_def
          is_file_def example_common_def Let_def)
qed

text \<open>
  An address that starts with \<^verbatim>\<open>tcp:\<close> loses its first four characters, in memory and in
  the file that is written again.
\<close>

lemma load_settings_strips_tcp_once:
  assumes "settings_file s = File (Decodes (PDict d0))"
      and "map_of d0 ''tor_socks_address'' = Some (PStr addr)" and "prefix ''tcp:'' addr"
      and "load_settings s = Inr s'"
  shows "\<exists>d. settings s' = Some (PDict d) \<and> settings_file s' = File (Decodes (PDict d))
           \<and> map_of d ''tor_socks_address'' = Some (PStr (drop 4 addr))"
proof -
  from assms(1,4) have "load_settings_json (PDict d0) s = Inr s'"
    by (simp add: load_settings_json_file)
  then obtain d0' d2 r2 d3 r3 d4 r4 where
    loaded: "PDict d0 = PDict d0'" and
    up: "make_up_to_date (default_settings s)
       (AList.update ''installed'' (PBool (is_file (tbb_start s))) d0') = (d2, r2)" and
    st: "strip_tcp (d2, r2) = Inr (d3, r3)" and
    mv: "make_version_current (tbl_version s) (d3, r3) = Inr (d4, r4)" and
    s': "settings s' = Some (PDict d4)" "tbl_version s' = tbl_version s" and
    written: "settings_file s' = (if r4 then File (Decodes (PDict d4)) else settings_file s)"
    by (rule load_settings_json_Inr)
  have d2: "map_of d2 ''tor_socks_address'' = Some (PStr addr)"
    using map_of_make_up_to_date [of "default_settings s"
            "AList.update ''installed'' (PBool (is_file (tbb_start s))) d0'"
            "''tor_socks_address''"] up loaded assms(2)
    by (simp add: AList.update_conv')
  from strip_tcp_Inr [OF st] d2 assms(3)
  have d3: "map_of d3 = (map_of d2)(''tor_socks_address'' \<mapsto> PStr (drop 4 addr))"
    by auto
  from make_version_current_Inr [OF mv]
  have d4: "map_of d4 = (map_of d3)(''tbl_version'' \<mapsto> PStr (tbl_version s))" by simp
  have "r3" using st d2 assms(3) by (rule strip_tcp_resave)
  with mv have "r4" by (rule make_version_current_resave)
  with written have "settings_file s' = File (Decodes (PDict d4))" by simp
  moreover have "map_of d4 ''tor_socks_address'' = Some (PStr (drop 4 addr))"
    by (simp add: d4 d3)
  ultimately show ?thesis using s' by simp
qed

text \<open>
  Claim C8 says that after \<^verbatim>\<open>load_settings\<close> the address never starts with \<^verbatim>\<open>tcp:\<close>, which
  is also what the source's comment asks for. The prefix is removed once: an address that
  carries it twice still starts with it after the load, in memory and in the file.
\<close>

theorem load_settings_keeps_second_tcp_prefix:
  "load_settings (example_common\<lparr>settings_file := File (Decodes (PDict
        [(''tbl_version'', PStr ''1.2.3''), (''installed'', PBool False),
         (''download_over_tor'', PBool True),
         (''tor_socks_address'', PStr ''tcp:tcp:127.0.0.1:9050''),
         (''mirror'', PStr ''https://dist.torproject.org/'')]))\<rparr>)
     = Inr (example_common\<lparr>
              settings := Some (PDict
                [(''tbl_version'', PStr ''1.2.3''), (''installed'', PBool False),
                 (''download_over_tor'', PBool True),
                 (''tor_socks_address'', PStr ''tcp:127.0.0.1:9050''),
                 (''mirror'', PStr ''https://dist.torproject.org/'')]),
              settings_file := File (Decodes (PDict
                [(''tbl_version'', PStr ''1.2.3''), (''installed'', PBool False),
                 (''download_over_tor'', PBool True),
                 (''tor_socks_address'', PStr ''tcp:127.0.0.1:9050''),
                 (''mirror'', PStr ''https://dist.torproject.org/'')]))\<rparr>)
   \<and> prefix ''tcp:'' ''tcp:127.0.0.1:9050''"
proof -
  let ?loaded = "PDict
        [(''tbl_version'', PStr ''1.2.3''), (''installed'', PBool False),
         (''download_over_tor'', PBool True),
         (''tor_socks_address'', PStr ''tcp:tcp:127.0.0.1:9050''),
         (''mirror'', PStr ''https://dist.torproject.org/'')]"
  let ?s = "example_common\<lparr>settings_file := File (Decodes ?loaded)\<rparr>"
  have "load_settings ?s = load_settings_json ?loaded ?s"
    by (rule load_settings_json_file) simp
  then show ?thesis
    by (simp add: load_settings_json_def make_up_to_date_def missing_settings_def strip_tcp_def
          make_version_current_def default_settings_def default_mirror_def save_settings_def
          is_file_def example_common_def Let_def)
qed

section \<open>Properties of the key refresh\<close>

text \<open>The import prints nothing, and what was printed before it does not change its course.\<close>

lemma import_key_print:
  "import_key_and_check_status engine key (print line s)
     = (case import_key_and_check_status engine key s of
          Inl e \<Rightarrow> Inl e
        | Inr (s2, ok) \<Rightarrow> Inr (print line s2, ok))"
  by (simp add: import_key_and_check_status_def signing_keys_def print_def
        split: option.splits entry.splits prod.splits engine_reply.splits list.splits)

lemma import_key_stdout:
  "import_key_and_check_status engine key s = Inr (s2, ok) \<Longrightarrow> stdout s2 = stdout s"
  by (auto simp: import_key_and_check_status_def
        split: option.splits entry.splits prod.splits engine_reply.splits list.splits)

text \<open>The two ways through \<^verbatim>\<open>refresh_keyring\<close> once a response has arrived.\<close>

lemma refresh_keyring_refused:
  assumes "proxies s = Inr p" and "requests_get p = Inr r" and "status_code r \<noteq> 200"
  shows "refresh_keyring engine requests_get s
           = Inr (s\<lparr>stdout := stdout s @
                    [''Downloading latest Tor Browser signing key...'',
                     ''Error fetching key, status code = '' @ str_int (status_code r)]\<rparr>,
                  PNone)"
proof -
  have "proxies (print ''Downloading latest Tor Browser signing key...'' s) = Inr p"
    using assms(1) by (simp add: proxies_def print_def)
  with assms(2,3) show ?thesis by (simp add: refresh_keyring_def Let_def print_def)
qed

lemma refresh_keyring_fetched:
  assumes "proxies s = Inr p" and "requests_get p = Inr r" and "status_code r = 200"
      and "wkd_tmp s \<noteq> Dir"
  shows "refresh_keyring engine requests_get s
           = (case import_key_and_check_status engine ''wkd_tmp''
                     (s\<lparr>wkd_tmp := File (content r)\<rparr>) of
                Inl e \<Rightarrow> Inl e
              | Inr (s2, ok) \<Rightarrow>
                  Inr (s2\<lparr>stdout := stdout s @
                         [''Downloading latest Tor Browser signing key...'',
                          if ok then ''Key imported successfully''
                          else ''Key failed to import'']\<rparr>,
                       PNone))"
proof -
  let ?s1 = "print ''Downloading latest Tor Browser signing key...'' s"
  have p1: "proxies ?s1 = Inr p"
    using assms(1) by (simp add: proxies_def print_def)
  have nodir1: "wkd_tmp ?s1 \<noteq> Dir"
    using assms(4) by (simp add: print_def)
  have same: "?s1\<lparr>wkd_tmp := File (content r)\<rparr>
                = print ''Downloading latest Tor Browser signing key...''
                    (s\<lparr>wkd_tmp := File (content r)\<rparr>)"
    by (simp add: print_def)
  have unfolded: "refresh_keyring engine requests_get s
           = (case import_key_and_check_status engine ''wkd_tmp''
                     (?s1\<lparr>wkd_tmp := File (content r)\<rparr>) of
                Inl e \<Rightarrow> Inl e
              | Inr (s2, ok) \<Rightarrow>
                  Inr (print (if ok then ''Key imported successfully''
                              else ''Key failed to import'') s2, PNone))"
    using p1 assms(2,3) nodir1
    by (simp add: refresh_keyring_def Let_def split: entry.splits)
  show ?thesis
  proof (cases "import_key_and_check_status engine ''wkd_tmp''
                  (s\<lparr>wkd_tmp := File (content r)\<rparr>)")
    case (Inl e)
    then show ?thesis unfolding unfolded same import_key_print by simp
  next
    case (Inr res)
    obtain s2 ok where res: "res = (s2, ok)" by (cases res)
    from Inr res have "stdout s2 = stdout s"
      using import_key_stdout [of engine "''wkd_tmp''" "s\<lparr>wkd_tmp := File (content r)\<rparr>" s2 ok]
      by simp
    with Inr res show ?thesis
      unfolding unfolded same import_key_print by (simp add: print_def)
  qed
qed

text \<open>An exception of the import leaves \<^verbatim>\<open>refresh_keyring\<close> as it is.\<close>

lemma refresh_keyring_import_raises:
  assumes "proxies s = Inr p" and "requests_get p = Inr r" and "status_code r = 200"
      and "wkd_tmp s \<noteq> Dir"
      and "import_key_and_check_status engine ''wkd_tmp'' (s\<lparr>wkd_tmp := File (content r)\<rparr>)
             = Inl e"
  shows "refresh_keyring engine requests_get s = Inl e"
  using refresh_keyring_fetched
          [where requests_get = requests_get and engine = engine, OF assms(1-4)] assms(5)
  by simp

text \<open>
  Claim C3, as the code has it. For a response with a status other than 200,
  \<^verbatim>\<open>refresh_keyring\<close> prints the status and returns \<^verbatim>\<open>None\<close>; the keyring and the temporary
  key file are as before. For status 200, with the temporary key file's path not a
  directory and \<^verbatim>\<open>import_key_and_check_status\<close> returning an outcome on the body written to
  that file, it prints whether the import succeeded and returns \<^verbatim>\<open>None\<close>, the file holding
  the body: the outcome of the import is printed, it is not the method's result.
\<close>

theorem refresh_keyring_reports_by_printing:
  assumes "proxies s = Inr p" and "requests_get p = Inr r"
  shows "(status_code r \<noteq> 200 \<longrightarrow>
            refresh_keyring engine requests_get s
              = Inr (s\<lparr>stdout := stdout s @
                       [''Downloading latest Tor Browser signing key...'',
                        ''Error fetching key, status code = '' @ str_int (status_code r)]\<rparr>,
                     PNone))
       \<and> (status_code r = 200 \<and> wkd_tmp s \<noteq> Dir \<longrightarrow>
            (\<forall>s2 ok. import_key_and_check_status engine ''wkd_tmp''
                        (s\<lparr>wkd_tmp := File (content r)\<rparr>) = Inr (s2, ok) \<longrightarrow>
               refresh_keyring engine requests_get s
                 = Inr (s2\<lparr>stdout := stdout s @
                          [''Downloading latest Tor Browser signing key...'',
                           if ok then ''Key imported successfully''
                           else ''Key failed to import'']\<rparr>,
                        PNone)
               \<and> wkd_tmp s2 = File (content r)))"
proof (intro conjI impI allI)
  assume "status_code r \<noteq> 200"
  with assms show "refresh_keyring engine requests_get s
              = Inr (s\<lparr>stdout := stdout s @
                       [''Downloading latest Tor Browser signing key...'',
                        ''Error fetching key, status code = '' @ str_int (status_code r)]\<rparr>,
                     PNone)"
    by (rule refresh_keyring_refused [where requests_get = requests_get])
next
  fix s2 ok
  assume fetched: "status_code r = 200 \<and> wkd_tmp s \<noteq> Dir"
    and imported: "import_key_and_check_status engine ''wkd_tmp''
                     (s\<lparr>wkd_tmp := File (content r)\<rparr>) = Inr (s2, ok)"
  from fetched have ok: "status_code r = 200" and nodir: "wkd_tmp s \<noteq> Dir" by simp_all
  from refresh_keyring_fetched
         [where requests_get = requests_get and engine = engine, OF assms ok nodir] imported
  show "refresh_keyring engine requests_get s
                 = Inr (s2\<lparr>stdout := stdout s @
                          [''Downloading latest Tor Browser signing key...'',
                           if ok then ''Key imported successfully''
                           else ''Key failed to import'']\<rparr>,
                        PNone)"
    by simp
  from import_key_frame [OF imported]
  have "wkd_tmp s2 = wkd_tmp (s\<lparr>wkd_tmp := File (content r), gnupg_homedir := gnupg_homedir s2\<rparr>)"
    by simp
  then show "wkd_tmp s2 = File (content r)" by simp
qed

theorem refresh_keyring_reports_by_printing_witness:
  "refresh_keyring (reporting_engine ''EF6E286DDA85EA2A4BA7DE684E2C6E8793298290'')
       (answering 404 ''not found'') loaded_common
     = Inr (loaded_common\<lparr>stdout :=
              [''Downloading latest Tor Browser signing key...'',
               ''Error fetching key, status code = 404'']\<rparr>, PNone)
   \<and> refresh_keyring (reporting_engine ''0000000000000000000000000000000000000000'')
       (answering 200 ''fetched key material'') loaded_common
     = Inr (loaded_common\<lparr>wkd_tmp := File ''fetched key material'',
              gnupg_homedir := [''0000000000000000000000000000000000000000''],
              stdout :=
              [''Downloading latest Tor Browser signing key...'',
               ''Key failed to import'']\<rparr>, PNone)"
proof -
  have digits: "str_int 404 = ''404''"
    by code_simp
  have proxy: "proxies loaded_common = Inr NoProxy"
    by (simp add: proxies_def getitem_def loaded_common_def example_common_def
          default_settings_def)
  have refused: "answering 404 ''not found'' NoProxy
                   = Inr \<lparr>status_code = 404, content = ''not found''\<rparr>"
    by (simp add: answering_def)
  have fetched: "answering 200 ''fetched key material'' NoProxy
                   = Inr \<lparr>status_code = 200, content = ''fetched key material''\<rparr>"
    by (simp add: answering_def)
  have imported: "import_key_and_check_status
           (reporting_engine ''0000000000000000000000000000000000000000'') ''wkd_tmp''
           (loaded_common\<lparr>wkd_tmp := File ''fetched key material''\<rparr>)
         = Inr (loaded_common\<lparr>wkd_tmp := File ''fetched key material'',
                  gnupg_homedir := [''0000000000000000000000000000000000000000'']\<rparr>, False)"
    by (simp add: import_key_and_check_status_def signing_keys_def fingerprints_def
          tor_browser_developers_fingerprint_def reporting_engine_def loaded_common_def
          example_common_def)
  have nodir: "wkd_tmp loaded_common \<noteq> Dir"
    by (simp add: loaded_common_def example_common_def)
  from refresh_keyring_reports_by_printing
         [where requests_get = "answering 404 ''not found''"
            and engine = "reporting_engine ''EF6E286DDA85EA2A4BA7DE684E2C6E8793298290''",
          OF proxy refused]
  have first: "refresh_keyring (reporting_engine ''EF6E286DDA85EA2A4BA7DE684E2C6E8793298290'')
       (answering 404 ''not found'') loaded_common
     = Inr (loaded_common\<lparr>stdout :=
              [''Downloading latest Tor Browser signing key...'',
               ''Error fetching key, status code = 404'']\<rparr>, PNone)"
    by (simp add: digits loaded_common_def example_common_def)
  from refresh_keyring_reports_by_printing
         [where requests_get = "answering 200 ''fetched key material''"
            and engine = "reporting_engine ''0000000000000000000000000000000000000000''",
          OF proxy fetched] nodir
  have "\<forall>s2 ok. import_key_and_check_status
           (reporting_engine ''0000000000000000000000000000000000000000'') ''wkd_tmp''
           (loaded_common\<lparr>wkd_tmp := File ''fetched key material''\<rparr>) = Inr (s2, ok) \<longrightarrow>
         refresh_keyring (reporting_engine ''0000000000000000000000000000000000000000'')
           (answering 200 ''fetched key material'') loaded_common
           = Inr (s2\<lparr>stdout := stdout loaded_common @
                    [''Downloading latest Tor Browser signing key...'',
                     if ok then ''Key imported successfully''
                     else ''Key failed to import'']\<rparr>, PNone)"
    by simp
  from this [rule_format, OF imported]
  have second: "refresh_keyring (reporting_engine ''0000000000000000000000000000000000000000'')
       (answering 200 ''fetched key material'') loaded_common
     = Inr (loaded_common\<lparr>wkd_tmp := File ''fetched key material'',
              gnupg_homedir := [''0000000000000000000000000000000000000000''],
              stdout :=
              [''Downloading latest Tor Browser signing key...'',
               ''Key failed to import'']\<rparr>, PNone)"
    by (simp add: loaded_common_def example_common_def)
  from first second show ?thesis by simp
qed

text \<open>
  Claim C3, as stated, has \<^verbatim>\<open>refresh_keyring\<close> return the outcome of the import. With
  status 200 and an engine that reports the pinned fingerprint the import returns \<^verbatim>\<open>True\<close>,
  and \<^verbatim>\<open>refresh_keyring\<close> returns \<^verbatim>\<open>None\<close>.
\<close>

theorem refresh_keyring_returns_none:
  "refresh_keyring (reporting_engine ''EF6E286DDA85EA2A4BA7DE684E2C6E8793298290'')
       (answering 200 ''fetched key material'') loaded_common
     = Inr (loaded_common\<lparr>wkd_tmp := File ''fetched key material'',
              gnupg_homedir := [''EF6E286DDA85EA2A4BA7DE684E2C6E8793298290''],
              stdout :=
              [''Downloading latest Tor Browser signing key...'',
               ''Key imported successfully'']\<rparr>, PNone)
   \<and> import_key_and_check_status
         (reporting_engine ''EF6E286DDA85EA2A4BA7DE684E2C6E8793298290'') ''wkd_tmp''
         (loaded_common\<lparr>wkd_tmp := File ''fetched key material''\<rparr>)
     = Inr (loaded_common\<lparr>wkd_tmp := File ''fetched key material'',
              gnupg_homedir := [''EF6E286DDA85EA2A4BA7DE684E2C6E8793298290'']\<rparr>, True)
   \<and> PNone \<noteq> PBool True"
  by (simp add: refresh_keyring_def Let_def print_def proxies_def getitem_def answering_def
        import_key_and_check_status_def signing_keys_def fingerprints_def
        tor_browser_developers_fingerprint_def reporting_engine_def loaded_common_def
        example_common_def default_settings_def)

text \<open>
  Claim C10, as the code has it. The registry pins both key names, \<^verbatim>\<open>tor_browser_developers\<close>
  and \<^verbatim>\<open>wkd_tmp\<close>, to the fingerprint EF6E286DDA85EA2A4BA7DE684E2C6E8793298290. When
  \<^verbatim>\<open>refresh_keyring\<close> has fetched a key and the engine's result lists at least one key, the
  refresh reports success exactly when the pinned fingerprint occurs in the fingerprint
  reported for the first key as a contiguous run of characters, which for a reported
  fingerprint of 40 characters is equality; the packaged key file with the same material
  gets the same verdict.
\<close>

theorem refreshed_key_pinned_like_packaged:
  assumes "proxies s = Inr p" and "requests_get p = Inr r" and "status_code r = 200"
      and "wkd_tmp s \<noteq> Dir"
      and "engine (content r) (gnupg_homedir s) = (homedir, EngineResult (Some result))"
      and "result_imports result = i # others"
  shows "fingerprints ''tor_browser_developers'' = Some ''EF6E286DDA85EA2A4BA7DE684E2C6E8793298290''
       \<and> fingerprints ''wkd_tmp'' = Some ''EF6E286DDA85EA2A4BA7DE684E2C6E8793298290''
       \<and> refresh_keyring engine requests_get s
           = Inr (s\<lparr>wkd_tmp := File (content r), gnupg_homedir := homedir,
                    stdout := stdout s @
                      [''Downloading latest Tor Browser signing key...'',
                       if sublist ''EF6E286DDA85EA2A4BA7DE684E2C6E8793298290'' (fpr i)
                       then ''Key imported successfully'' else ''Key failed to import'']\<rparr>,
                  PNone)
       \<and> (length (fpr i) = 40 \<longrightarrow>
            sublist ''EF6E286DDA85EA2A4BA7DE684E2C6E8793298290'' (fpr i)
              = (fpr i = ''EF6E286DDA85EA2A4BA7DE684E2C6E8793298290''))
       \<and> (tor_browser_developers_asc s = File (content r) \<longrightarrow>
            import_key_and_check_status engine ''tor_browser_developers'' s
              = Inr (s\<lparr>gnupg_homedir := homedir\<rparr>,
                     sublist ''EF6E286DDA85EA2A4BA7DE684E2C6E8793298290'' (fpr i)))"
proof -
  let ?pinned = "''EF6E286DDA85EA2A4BA7DE684E2C6E8793298290''"
  have packaged: "fingerprints ''tor_browser_developers'' = Some ?pinned"
    and refreshed: "fingerprints ''wkd_tmp'' = Some ?pinned"
    by (simp_all add: fingerprints_def tor_browser_developers_fingerprint_def)
  have "import_key_and_check_status engine ''wkd_tmp'' (s\<lparr>wkd_tmp := File (content r)\<rparr>)
          = Inr (s\<lparr>wkd_tmp := File (content r), gnupg_homedir := homedir\<rparr>,
                 sublist ?pinned (fpr i))"
    using import_key_first_import
            [OF refreshed, of "s\<lparr>wkd_tmp := File (content r)\<rparr>" "content r" engine homedir
               result i others] assms(5,6)
    by (simp add: signing_keys_def)
  with refresh_keyring_fetched
         [where requests_get = requests_get and engine = engine, OF assms(1-4)]
  have report: "refresh_keyring engine requests_get s
           = Inr (s\<lparr>wkd_tmp := File (content r), gnupg_homedir := homedir,
                    stdout := stdout s @
                      [''Downloading latest Tor Browser signing key...'',
                       if sublist ?pinned (fpr i)
                       then ''Key imported successfully'' else ''Key failed to import'']\<rparr>,
                  PNone)"
    by simp
  have exact: "sublist ?pinned (fpr i) = (fpr i = ?pinned)" if "length (fpr i) = 40"
    using that sublist_same_length [of ?pinned "fpr i"] by auto
  have same_verdict: "import_key_and_check_status engine ''tor_browser_developers'' s
              = Inr (s\<lparr>gnupg_homedir := homedir\<rparr>, sublist ?pinned (fpr i))"
    if "tor_browser_developers_asc s = File (content r)"
    using import_key_first_import [OF packaged, of s "content r" engine homedir result i others]
      that assms(5,6)
    by (simp add: signing_keys_def)
  from packaged refreshed report exact same_verdict show ?thesis by blast
qed

theorem refreshed_key_pinned_like_packaged_witness:
  "refresh_keyring (reporting_engine ''EF6E286DDA85EA2A4BA7DE684E2C6E8793298290'')
       (answering 200 ''packaged key material'') loaded_common
     = Inr (loaded_common\<lparr>wkd_tmp := File ''packaged key material'',
              gnupg_homedir := [''EF6E286DDA85EA2A4BA7DE684E2C6E8793298290''],
              stdout :=
              [''Downloading latest Tor Browser signing key...'',
               ''Key imported successfully'']\<rparr>, PNone)
   \<and> import_key_and_check_status (reporting_engine ''EF6E286DDA85EA2A4BA7DE684E2C6E8793298290'')
       ''tor_browser_developers'' loaded_common
     = Inr (loaded_common\<lparr>gnupg_homedir := [''EF6E286DDA85EA2A4BA7DE684E2C6E8793298290'']\<rparr>,
            True)"
proof -
  let ?pinned = "''EF6E286DDA85EA2A4BA7DE684E2C6E8793298290''"
  let ?i = "\<lparr>fpr = ?pinned\<rparr>"
  let ?r = "\<lparr>status_code = 200, content = ''packaged key material''\<rparr>"
  have proxy: "proxies loaded_common = Inr NoProxy"
    by (simp add: proxies_def getitem_def loaded_common_def example_common_def
          default_settings_def)
  have fetched: "answering 200 ''packaged key material'' NoProxy = Inr ?r"
    by (simp add: answering_def)
  have status: "status_code ?r = 200" by simp
  have nodir: "wkd_tmp loaded_common \<noteq> Dir"
    by (simp add: loaded_common_def example_common_def)
  have reply: "reporting_engine ?pinned (content ?r) (gnupg_homedir loaded_common)
                 = ([?pinned], EngineResult (Some \<lparr>result_imports = [?i]\<rparr>))"
    by (simp add: reporting_engine_def loaded_common_def example_common_def)
  have first: "result_imports \<lparr>result_imports = [?i]\<rparr> = ?i # []" by simp
  note pinned = refreshed_key_pinned_like_packaged
      [where requests_get = "answering 200 ''packaged key material''"
         and engine = "reporting_engine ?pinned",
       OF proxy fetched status nodir reply first]
  have packaged: "tor_browser_developers_asc loaded_common = File (content ?r)"
    by (simp add: loaded_common_def example_common_def)
  have found: "sublist ?pinned (fpr ?i)" by simp
  from pinned found
  have "refresh_keyring (reporting_engine ?pinned) (answering 200 ''packaged key material'')
          loaded_common
     = Inr (loaded_common\<lparr>wkd_tmp := File ''packaged key material'',
              gnupg_homedir := [?pinned],
              stdout :=
              [''Downloading latest Tor Browser signing key...'',
               ''Key imported successfully'']\<rparr>, PNone)"
    by (simp add: loaded_common_def example_common_def)
  moreover from pinned packaged found
  have "import_key_and_check_status (reporting_engine ?pinned) ''tor_browser_developers''
          loaded_common
     = Inr (loaded_common\<lparr>gnupg_homedir := [?pinned]\<rparr>, True)"
    by simp
  ultimately show ?thesis by simp
qed

text \<open>
  Claim C10, as stated, has a refreshed key accepted only when it reports the pinned
  fingerprint itself. A refreshed key whose reported fingerprint has 64 characters and
  contains the pinned 40 is reported as imported.
\<close>

theorem refreshed_key_accepted_with_longer_fingerprint:
  "refresh_keyring
       (reporting_engine ''9A3BEF6E286DDA85EA2A4BA7DE684E2C6E87932982907C55D0F1B2A6E4C3D8F9'')
       (answering 200 ''fetched key material'') loaded_common
     = Inr (loaded_common\<lparr>wkd_tmp := File ''fetched key material'',
              gnupg_homedir :=
                [''9A3BEF6E286DDA85EA2A4BA7DE684E2C6E87932982907C55D0F1B2A6E4C3D8F9''],
              stdout :=
              [''Downloading latest Tor Browser signing key...'',
               ''Key imported successfully'']\<rparr>, PNone)
   \<and> fingerprints ''wkd_tmp'' = Some ''EF6E286DDA85EA2A4BA7DE684E2C6E8793298290''
   \<and> ''9A3BEF6E286DDA85EA2A4BA7DE684E2C6E87932982907C55D0F1B2A6E4C3D8F9''
       \<noteq> ''EF6E286DDA85EA2A4BA7DE684E2C6E8793298290''"
  by (simp add: refresh_keyring_def Let_def print_def proxies_def getitem_def answering_def
        import_key_and_check_status_def signing_keys_def fingerprints_def
        tor_browser_developers_fingerprint_def reporting_engine_def loaded_common_def
        example_common_def default_settings_def)

end
